theory Spec2Isabelle
  imports Complex_Main "HOL-Library.AList"
begin

section \<open>JavaScript strings\<close>

text \<open>
  A JavaScript string is a sequence of UTF-16 code units. The document text, and every
  string cut out of it, is a list of code units (numbers); \<open>str\<close> turns an ASCII literal
  of the source into that form. Names and suggestion texts of the catalogs are never
  mixed with document text and stay HOL strings.
\<close>

type_synonym jsstring = "nat list"

definition str :: "string \<Rightarrow> jsstring" where
  "str s = map of_char s"

text \<open>ECMAScript \<open>LineTerminator\<close>: LF, CR, U+2028, U+2029.\<close>

definition isLineTerminator :: "nat \<Rightarrow> bool" where
  "isLineTerminator c = (c = 10 \<or> c = 13 \<or> c = 8232 \<or> c = 8233)"

text \<open>
  The set matched by \<open>\s\<close> and stripped by \<open>trim\<close>: \<open>WhiteSpace\<close> (TAB, VT, FF, SP, NBSP,
  U+FEFF and the space separators U+1680, U+2000..U+200A, U+202F, U+205F, U+3000) together
  with the line terminators.
\<close>

definition isWhiteSpace :: "nat \<Rightarrow> bool" where
  "isWhiteSpace c = (c = 9 \<or> c = 10 \<or> c = 11 \<or> c = 12 \<or> c = 13 \<or> c = 32 \<or> c = 160
     \<or> c = 5760 \<or> (8192 \<le> c \<and> c \<le> 8202) \<or> c = 8232 \<or> c = 8233 \<or> c = 8239
     \<or> c = 8287 \<or> c = 12288 \<or> c = 65279)"

definition isWordChar :: "nat \<Rightarrow> bool" where
  "isWordChar c = ((48 \<le> c \<and> c \<le> 57) \<or> (65 \<le> c \<and> c \<le> 90) \<or> c = 95 \<or> (97 \<le> c \<and> c \<le> 122))"

definition isDigit :: "nat \<Rightarrow> bool" where
  "isDigit c = (48 \<le> c \<and> c \<le> 57)"

text \<open>\<open>String.prototype.split\<close> with a one-unit separator: always at least one piece.\<close>

fun split :: "nat \<Rightarrow> jsstring \<Rightarrow> jsstring list" where
  "split sep [] = [[]]"
| "split sep (c # cs) =
     (if c = sep then [] # split sep cs
      else (case split sep cs of [] \<Rightarrow> [[c]] | l # ls \<Rightarrow> (c # l) # ls))"

text \<open>\<open>Array.prototype.join\<close> with a separator string.\<close>

fun join :: "jsstring \<Rightarrow> jsstring list \<Rightarrow> jsstring" where
  "join sep [] = []"
| "join sep [x] = x"
| "join sep (x # y # ys) = x @ sep @ join sep (y # ys)"

definition trim :: "jsstring \<Rightarrow> jsstring" where
  "trim s = rev (dropWhile isWhiteSpace (rev (dropWhile isWhiteSpace s)))"

section \<open>Regular expressions\<close>

text \<open>
  The patterns of the source are regular-expression literals. Each is written here as a
  syntax tree, and one backtracking matcher gives all of them their meaning, following the
  ECMAScript matching rules: alternatives are tried left to right, a greedy quantifier
  tries one more iteration before stopping and a lazy one stops first, an iteration that
  consumes nothing is rejected, and a lookahead consumes nothing. No pattern of the
  source has a capturing group under a quantifier, so captures are never reset.
\<close>

datatype classItem = Ch nat | Rng nat nat | Esc_s | Esc_S | Esc_w | Esc_d

datatype regex =
    Eps
  | Lit nat
  | Str jsstring
  | Dot
  | Cls bool "classItem list"
  | Seq regex regex
  | Alt regex regex
  | Opt regex
  | Star bool regex
  | Plus bool regex
  | Group nat regex
  | Look regex
  | Bol
  | Eol

text \<open>
  \<open>Lit c\<close> is one pattern character, \<open>Str\<close> a run of them, \<open>Dot\<close> is \<open>.\<close>,
  \<open>Cls neg items\<close> a class (\<open>neg\<close> for \<open>[^...]\<close>; a lone escape such as \<open>\s\<close> is the class
  of that one item), \<open>Opt\<close> is \<open>?\<close>, \<open>Star g\<close> and \<open>Plus g\<close> are \<open>*\<close> and \<open>+\<close> (greedy when \<open>g\<close>,
  else \<open>*?\<close> and \<open>+?\<close>), \<open>Group n\<close> the \<open>n\<close>-th capturing group, \<open>Look\<close> is \<open>(?=...)\<close>, \<open>Bol\<close>
  and \<open>Eol\<close> are \<open>^\<close> and \<open>$\<close>.
\<close>

definition seqs :: "regex list \<Rightarrow> regex" where
  "seqs rs = foldr Seq rs Eps"

text \<open>
  Case folding of the \<open>i\<close> flag (\<open>Canonicalize\<close> without the \<open>u\<close> flag). Every pattern
  character of the source is ASCII, and a code unit from 128 on never folds to an ASCII
  one, so folding the ASCII letters decides every comparison the patterns make.
\<close>

definition canonicalize :: "bool \<Rightarrow> nat \<Rightarrow> nat" where
  "canonicalize ic c = (if ic \<and> 97 \<le> c \<and> c \<le> 122 then c - 32 else c)"

fun itemMatches :: "bool \<Rightarrow> classItem \<Rightarrow> nat \<Rightarrow> bool" where
  "itemMatches ic (Ch a) c = (canonicalize ic a = canonicalize ic c)"
| "itemMatches ic (Rng lo hi) c =
     ((lo \<le> c \<and> c \<le> hi) \<or>
      (ic \<and> ((97 \<le> c \<and> c \<le> 122 \<and> lo \<le> c - 32 \<and> c - 32 \<le> hi)
           \<or> (65 \<le> c \<and> c \<le> 90 \<and> lo \<le> c + 32 \<and> c + 32 \<le> hi))))"
| "itemMatches ic Esc_s c = isWhiteSpace c"
| "itemMatches ic Esc_S c = (\<not> isWhiteSpace c)"
| "itemMatches ic Esc_w c = isWordChar c"
| "itemMatches ic Esc_d c = isDigit c"

text \<open>
  A matcher state: the code unit just before the current position (none at the start of
  the input), the input still ahead, and the captures made so far (latest first).
\<close>

datatype mstate = MState (prevc: "nat option") (rest: jsstring) (caps: "(nat \<times> jsstring) list")

definition consume :: "(nat \<Rightarrow> bool) \<Rightarrow> mstate \<Rightarrow> mstate list" where
  "consume P s = (case rest s of [] \<Rightarrow> []
                  | c # cs \<Rightarrow> if P c then [MState (Some c) cs (caps s)] else [])"

primrec consumeStr :: "bool \<Rightarrow> jsstring \<Rightarrow> mstate \<Rightarrow> mstate list" where
  "consumeStr ic [] s = [s]"
| "consumeStr ic (p # ps) s =
     concat (map (consumeStr ic ps) (consume (\<lambda>c. canonicalize ic c = canonicalize ic p) s))"

definition progressed :: "mstate \<Rightarrow> mstate \<Rightarrow> bool" where
  "progressed s s' = (length (rest s') < length (rest s))"

text \<open>
  \<open>repeat\<close> is the quantifier loop. Every kept iteration consumes at least one code unit,
  so it runs at most as many rounds as there is input ahead: the counter starts at that
  length and is never the reason the loop stops.
\<close>

primrec repeat :: "bool \<Rightarrow> (mstate \<Rightarrow> mstate list) \<Rightarrow> nat \<Rightarrow> mstate \<Rightarrow> mstate list" where
  "repeat greedy m 0 s = [s]"
| "repeat greedy m (Suc n) s =
     (let more = concat (map (repeat greedy m n) (filter (progressed s) (m s)))
      in if greedy then more @ [s] else s # more)"

definition setCapture :: "nat \<Rightarrow> mstate \<Rightarrow> mstate \<Rightarrow> mstate" where
  "setCapture n s s' =
     MState (prevc s') (rest s')
       ((n, take (length (rest s) - length (rest s')) (rest s)) # caps s')"

definition atLineStart :: "bool \<Rightarrow> mstate \<Rightarrow> bool" where
  "atLineStart ml s = (case prevc s of None \<Rightarrow> True | Some c \<Rightarrow> ml \<and> isLineTerminator c)"

definition atLineEnd :: "bool \<Rightarrow> mstate \<Rightarrow> bool" where
  "atLineEnd ml s = (case rest s of [] \<Rightarrow> True | c # cs \<Rightarrow> ml \<and> isLineTerminator c)"

text \<open>
  \<open>ms r ic ml s\<close> lists the states in which \<open>r\<close> can end when started in \<open>s\<close>, in the order
  in which backtracking tries them; \<open>ic\<close> and \<open>ml\<close> are the flags \<open>i\<close> and \<open>m\<close>.
\<close>

primrec ms :: "regex \<Rightarrow> bool \<Rightarrow> bool \<Rightarrow> mstate \<Rightarrow> mstate list" where
  "ms Eps ic ml s = [s]"
| "ms (Lit p) ic ml s = consume (\<lambda>c. canonicalize ic c = canonicalize ic p) s"
| "ms (Str ps) ic ml s = consumeStr ic ps s"
| "ms Dot ic ml s = consume (\<lambda>c. \<not> isLineTerminator c) s"
| "ms (Cls neg items) ic ml s =
     consume (\<lambda>c. list_ex (\<lambda>i. itemMatches ic i c) items \<noteq> neg) s"
| "ms (Seq a b) ic ml s = concat (map (ms b ic ml) (ms a ic ml s))"
| "ms (Alt a b) ic ml s = ms a ic ml s @ ms b ic ml s"
| "ms (Opt a) ic ml s = filter (progressed s) (ms a ic ml s) @ [s]"
| "ms (Star greedy a) ic ml s = repeat greedy (ms a ic ml) (length (rest s)) s"
| "ms (Plus greedy a) ic ml s =
     concat (map (\<lambda>s'. repeat greedy (ms a ic ml) (length (rest s')) s') (ms a ic ml s))"
| "ms (Group n a) ic ml s = map (setCapture n s) (ms a ic ml s)"
| "ms (Look a) ic ml s =
     (case ms a ic ml s of [] \<Rightarrow> [] | s' # _ \<Rightarrow> [MState (prevc s) (rest s) (caps s')])"
| "ms Bol ic ml s = (if atLineStart ml s then [s] else [])"
| "ms Eol ic ml s = (if atLineEnd ml s then [s] else [])"

text \<open>
  The search for the leftmost match: the first start position, from the current one on,
  at which the pattern matches, with the number of code units skipped and the end state
  of the first way to match there.
\<close>

primrec search :: "regex \<Rightarrow> bool \<Rightarrow> bool \<Rightarrow> nat option \<Rightarrow> jsstring \<Rightarrow> (nat \<times> mstate) option" where
  "search r ic ml p [] =
     (case ms r ic ml (MState p [] []) of [] \<Rightarrow> None | e # _ \<Rightarrow> Some (0, e))"
| "search r ic ml p (c # cs) =
     (case ms r ic ml (MState p (c # cs) []) of
        e # _ \<Rightarrow> Some (0, e)
      | [] \<Rightarrow> map_option (\<lambda>(i, e). (Suc i, e)) (search r ic ml (Some c) cs))"

definition charBefore :: "jsstring \<Rightarrow> nat \<Rightarrow> nat option" where
  "charBefore S i = (if i = 0 \<or> length S < i then None else Some (S ! (i - 1)))"

subsection \<open>RegExp objects\<close>

text \<open>A value thrown by a JavaScript call.\<close>

datatype jsError = JsError string

text \<open>
  A RegExp object carries its pattern, its flags and the mutable \<open>lastIndex\<close>. The
  built-in \<open>test\<close> reads and writes \<open>lastIndex\<close> only when the \<open>g\<close> flag is set (no pattern
  of the source has the \<open>y\<close> flag), so it returns the object as it leaves it, and it never
  throws. An object may have a \<open>test\<close> property of its own, a function of the string
  that returns a boolean or throws; \<open>regex.test(...)\<close> then calls that one.
\<close>

record RegExp =
  re_source :: regex
  re_ignoreCase :: bool
  re_multiline :: bool
  re_global :: bool
  lastIndex :: nat
  ownTest :: "(jsstring \<Rightarrow> jsError + bool) option"

definition RegExp_test :: "RegExp \<Rightarrow> jsstring \<Rightarrow> bool \<times> RegExp" where
  "RegExp_test R S =
     (let li = (if re_global R then lastIndex R else 0)
      in if length S < li then (False, if re_global R then R\<lparr>lastIndex := 0\<rparr> else R)
         else (case search (re_source R) (re_ignoreCase R) (re_multiline R)
                      (charBefore S li) (drop li S) of
                 None \<Rightarrow> (False, if re_global R then R\<lparr>lastIndex := 0\<rparr> else R)
               | Some (i, e) \<Rightarrow>
                   (True, if re_global R then R\<lparr>lastIndex := length S - length (rest e)\<rparr>
                          else R)))"

text \<open>
  The method call \<open>R.test(S)\<close> on any RegExp object: the object's own \<open>test\<close> when it has
  one, the built-in one otherwise.
\<close>

definition callTest :: "RegExp \<Rightarrow> jsstring \<Rightarrow> jsError + (bool \<times> RegExp)" where
  "callTest R S =
     (case ownTest R of
        None \<Rightarrow> Inr (RegExp_test R S)
      | Some f \<Rightarrow> (case f S of Inl e \<Rightarrow> Inl e | Inr b \<Rightarrow> Inr (b, R)))"

text \<open>A regular-expression literal evaluates to a fresh object with \<open>lastIndex = 0\<close> and
  the built-in \<open>test\<close>.\<close>

definition literal :: "regex \<Rightarrow> bool \<Rightarrow> bool \<Rightarrow> bool \<Rightarrow> RegExp" where
  "literal r ic ml g =
     \<lparr>re_source = r, re_ignoreCase = ic, re_multiline = ml, re_global = g, lastIndex = 0,
      ownTest = None\<rparr>"

text \<open>\<open>test\<close> on a literal, whose object nothing else can reach.\<close>

definition test :: "RegExp \<Rightarrow> jsstring \<Rightarrow> bool" where
  "test R S = fst (RegExp_test R S)"

text \<open>
  \<open>String.prototype.match\<close> with a pattern without the \<open>g\<close> flag: \<open>null\<close>, or the matched
  text \<open>match[0]\<close> and the captures.
\<close>

definition match :: "jsstring \<Rightarrow> RegExp \<Rightarrow> (jsstring \<times> (nat \<times> jsstring) list) option" where
  "match S R =
     (case search (re_source R) (re_ignoreCase R) (re_multiline R) None S of
        None \<Rightarrow> None
      | Some (i, e) \<Rightarrow> Some (take (length S - i - length (rest e)) (drop i S), caps e))"

text \<open>\<open>match[n]\<close>; a group that did not take part reads \<open>undefined\<close>, which \<open>test\<close> turns
  into the string "undefined".\<close>

definition capture :: "(jsstring \<times> (nat \<times> jsstring) list) \<Rightarrow> nat \<Rightarrow> jsstring" where
  "capture m n = (case map_of (snd m) n of None \<Rightarrow> str ''undefined'' | Some t \<Rightarrow> t)"

text \<open>
  \<open>String.prototype.match\<close> with the \<open>g\<close> flag collects the text of every match, each
  search starting where the previous match ended, or one unit further after an empty
  match. \<open>matchLoop\<close> is that loop, entered with the result of the first search; the
  result is \<open>null\<close> when there is no match.
\<close>

function matchLoop :: "regex \<Rightarrow> bool \<Rightarrow> bool \<Rightarrow> jsstring \<Rightarrow> (nat \<times> mstate) option \<Rightarrow> jsstring list" where
  "matchLoop r ic ml S None = []"
| "matchLoop r ic ml S (Some (i, e)) =
     (let k = length S - i - length (rest e);
          m = take k (drop i S);
          j = i + max 1 k
      in if k = 0 \<and> length S \<le> i then [m]
         else m # matchLoop r ic ml (drop j S)
                    (search r ic ml (Some (S ! (j - 1))) (drop j S)))"
  by pat_completeness auto
termination
  by (relation "measure (\<lambda>(r, ic, ml, S, res). length S)") auto

definition matchGlobal :: "jsstring \<Rightarrow> RegExp \<Rightarrow> jsstring list option" where
  "matchGlobal S R =
     (case matchLoop (re_source R) (re_ignoreCase R) (re_multiline R) S
             (search (re_source R) (re_ignoreCase R) (re_multiline R) None S) of
        [] \<Rightarrow> None | m # ms' \<Rightarrow> Some (m # ms'))"

text \<open>\<open>x || []\<close> for a match result.\<close>

definition orEmpty :: "jsstring list option \<Rightarrow> jsstring list" where
  "orEmpty r = (case r of None \<Rightarrow> [] | Some xs \<Rightarrow> xs)"

section \<open>The criterion catalogs\<close>

record SectionCriterion =
  sc_name :: string
  sc_regex :: RegExp
  sc_score :: int
  sc_suggestion :: string

text \<open>A \<open>check\<close> is a JavaScript function: a call returns a boolean or throws.\<close>

record ExtraCriterion =
  ec_name :: string
  ec_check :: "jsstring \<Rightarrow> jsError + bool"
  ec_score :: int
  ec_suggestion :: string

definition returns :: "(jsstring \<Rightarrow> bool) \<Rightarrow> jsstring \<Rightarrow> jsError + bool" where
  "returns f content = Inr (f content)"

abbreviation ch :: "char \<Rightarrow> classItem" where
  "ch c \<equiv> Ch (of_char c)"

definition hash :: regex where
  "hash = Str (str ''#'')"

definition ws :: regex where
  "ws = Cls False [Esc_s]"

definition anyChar :: regex where
  "anyChar = Cls False [Esc_s, Esc_S]"

fun alts :: "regex list \<Rightarrow> regex" where
  "alts [] = Eps"
| "alts [r] = r"
| "alts (r # rs) = Alt r (alts rs)"

text \<open>\<open>(?=\n##? |\n# |\n$)\<close>, the end of a section; these patterns have no \<open>m\<close> flag, so \<open>$\<close>
  is the end of the document.\<close>

definition sectionEnd :: regex where
  "sectionEnd = Look (alts [seqs [Lit 10, hash, Opt hash, Str (str '' '')],
                            seqs [Lit 10, Str (str ''# '')],
                            seqs [Lit 10, Eol]])"

text \<open>\<open>/##?\s*Name/i\<close>\<close>

definition sectionHeading :: "string \<Rightarrow> RegExp" where
  "sectionHeading nm = literal (seqs [hash, Opt hash, Star True ws, Str (str nm)]) True False False"

text \<open>\<open>/##?\s*Name([\s\S]*?)(?=\n##? |\n# |\n$)/i\<close>\<close>

definition sectionBody :: "string \<Rightarrow> RegExp" where
  "sectionBody nm =
     literal (seqs [hash, Opt hash, Star True ws, Str (str nm), Group 1 (Star False anyChar),
                    sectionEnd]) True False False"

text \<open>\<open>!\[.*\]\(.*\)\<close>\<close>

definition badge :: regex where
  "badge = seqs [Str (str ''![''), Star True Dot, Str (str ''](''), Star True Dot, Str (str '')'')]"

text \<open>\<open>^#+\s+\<close>\<close>

definition headingMarker :: regex where
  "headingMarker = seqs [Bol, Plus True hash, Plus True ws]"

definition sectionCriteria_init :: "SectionCriterion list" where
  \<open>sectionCriteria_init =
    [\<lparr>sc_name = ''Title'',
      sc_regex = literal (seqs [Bol, hash, ws, Plus True Dot]) False True False,
      sc_score = 10,
      sc_suggestion = ''Add a title at the top using "# Project Name".''\<rparr>,
     \<lparr>sc_name = ''Description'',
      sc_regex = literal (seqs [hash, Opt hash, Star True ws,
                   Group 1 (alts [Str (str ''Overview''), Str (str ''Description'')])])
                   True False False,
      sc_score = 10,
      sc_suggestion = ''Add a description section.''\<rparr>,
     \<lparr>sc_name = ''Installation'',
      sc_regex = sectionHeading ''Installation'',
      sc_score = 10,
      sc_suggestion = ''Add an Installation section.''\<rparr>,
     \<lparr>sc_name = ''Usage'',
      sc_regex = sectionHeading ''Usage'',
      sc_score = 10,
      sc_suggestion = ''Add a Usage section.''\<rparr>,
     \<lparr>sc_name = ''Example'',
      sc_regex = sectionHeading ''Example'',
      sc_score = 5,
      sc_suggestion = ''Add an Example section.''\<rparr>,
     \<lparr>sc_name = ''Contributing'',
      sc_regex = sectionHeading ''Contributing'',
      sc_score = 5,
      sc_suggestion = ''Add a Contributing section.''\<rparr>,
     \<lparr>sc_name = ''License'',
      sc_regex = sectionHeading ''License'',
      sc_score = 10,
      sc_suggestion = ''Add a License section.''\<rparr>,
     \<lparr>sc_name = ''Badges'',
      sc_regex = literal badge False False False,
      sc_score = 5,
      sc_suggestion = ''Add badges (e.g., build, coverage, npm version).''\<rparr>]\<close>

subsection \<open>The checks of the extra criteria\<close>

text \<open>\<open>/^# [A-Z][\w\s\-]+$/m.test(content)\<close>\<close>

definition properTitleFormat :: "jsstring \<Rightarrow> bool" where
  "properTitleFormat content =
     test (literal (seqs [Bol, Str (str ''# ''), Cls False [Rng 65 90],
                          Plus True (Cls False [Esc_w, Esc_s, ch CHR ''-'']), Eol])
             False True False) content"

text \<open>The text after the first line of the description section, lines joined by a
  space and trimmed, is longer than 50.\<close>

definition descriptionLength :: "jsstring \<Rightarrow> bool" where
  "descriptionLength content =
     (case match content
             (literal (seqs [hash, Opt hash, Star True ws,
                             Group 1 (alts [Str (str ''Overview''), Str (str ''Description'')]),
                             Star False anyChar, sectionEnd]) True False False) of
        None \<Rightarrow> False
      | Some m \<Rightarrow> 50 < length (trim (join (str '' '') (drop 1 (split 10 (fst m))))))"

definition tableOfContents :: "jsstring \<Rightarrow> bool" where
  "tableOfContents content = test (sectionHeading ''Table of Contents'') content"

definition multipleBadges :: "jsstring \<Rightarrow> bool" where
  "multipleBadges content =
     (1 < length (orEmpty (matchGlobal content (literal badge False False True))))"

text \<open>\<open>/!\[.*(screenshot|image|demo|preview).*?\]\(.*\)/i\<close>\<close>

definition imagesScreenshots :: "jsstring \<Rightarrow> bool" where
  "imagesScreenshots content =
     test (literal (seqs [Str (str ''![''), Star True Dot,
                          Group 1 (alts [Str (str ''screenshot''), Str (str ''image''),
                                         Str (str ''demo''), Str (str ''preview'')]),
                          Star False Dot, Str (str ''](''), Star True Dot, Str (str '')'')])
             True False False) content"

text \<open>\<open>/\[.*?\]\(https?:\/\/.*?\)/\<close>\<close>

definition links :: "jsstring \<Rightarrow> bool" where
  "links content =
     test (literal (seqs [Str (str ''[''), Star False Dot, Str (str ''](http''),
                          Opt (Str (str ''s'')), Str (str ''://''), Star False Dot,
                          Str (str '')'')])
             False False False) content"

text \<open>\<open>/^(\s*[-*+]|\d+\.)\s+/m\<close>\<close>

definition lists :: "jsstring \<Rightarrow> bool" where
  "lists content =
     test (literal (seqs [Bol,
                          Group 1 (alts [seqs [Star True ws,
                                               Cls False [ch CHR ''-'', ch CHR ''*'', ch CHR ''+'']],
                                         seqs [Plus True (Cls False [Esc_d]), Str (str ''.'')]]),
                          Plus True ws])
             False True False) content"

text \<open>\<open>/\|.+\|.+\n\|[-\s|:]+\|/m\<close>\<close>

definition tables :: "jsstring \<Rightarrow> bool" where
  "tables content =
     test (literal (seqs [Str (str ''|''), Plus True Dot, Str (str ''|''), Plus True Dot,
                          Lit 10, Str (str ''|''),
                          Plus True (Cls False [ch CHR ''-'', Esc_s, ch CHR ''|'', ch CHR '':'']),
                          Str (str ''|'')])
             False True False) content"

text \<open>A backquote, one or more units that are not backquotes, a backquote.\<close>

definition inlineCode :: "jsstring \<Rightarrow> bool" where
  "inlineCode content =
     test (literal (seqs [Lit 96, Plus True (Cls True [Ch 96]), Lit 96])
             False False False) content"

text \<open>\<open>/^>\s.+/m\<close>\<close>

definition blockquotes :: "jsstring \<Rightarrow> bool" where
  "blockquotes content =
     test (literal (seqs [Bol, Str (str ''>''), ws, Plus True Dot]) False True False) content"

text \<open>
  The heading levels are the lengths of the trimmed matches of \<open>/^#+\s+/gm\<close>. With more
  than one heading, every level must be the first one or the first one plus one.
\<close>

definition headingLevels :: "jsstring \<Rightarrow> nat list" where
  "headingLevels content =
     map (\<lambda>h. length (trim h))
       (orEmpty (matchGlobal content (literal headingMarker False True True)))"

definition consistentHeadingLevels :: "jsstring \<Rightarrow> bool" where
  "consistentHeadingLevels content =
     (let headings = headingLevels content
      in if 1 < length headings
         then list_all (\<lambda>h. h = headings ! 0 \<or> h = headings ! 0 + 1) headings
         else True)"

text \<open>\<open>!/(TODO|TBD|lorem ipsum|replace this)/i.test(content)\<close>\<close>

definition noPlaceholderText :: "jsstring \<Rightarrow> bool" where
  "noPlaceholderText content =
     (\<not> test (literal (Group 1 (alts [Str (str ''TODO''), Str (str ''TBD''),
                                        Str (str ''lorem ipsum''), Str (str ''replace this'')]))
                True False False) content)"

text \<open>\<open>!/(#+[^ \n])|(\[[^\]]*\]\([^)]+\s*$)/m.test(content)\<close>\<close>

definition noBrokenMarkdown :: "jsstring \<Rightarrow> bool" where
  "noBrokenMarkdown content =
     (\<not> test (literal (Alt (Group 1 (seqs [Plus True hash, Cls True [Ch 32, Ch 10]]))
                            (Group 2 (seqs [Str (str ''[''), Star True (Cls True [ch CHR '']'']),
                                            Str (str ''](''), Plus True (Cls True [ch CHR '')'']),
                                            Star True ws, Eol])))
                False True False) content)"

text \<open>The section of that name exists and its body holds a code fence.\<close>

definition sectionHasCode :: "string \<Rightarrow> jsstring \<Rightarrow> bool" where
  "sectionHasCode nm content =
     (case match content (sectionBody nm) of
        None \<Rightarrow> False
      | Some m \<Rightarrow> test (literal (Str (str ''```'')) False False False) (capture m 1))"

definition contributingHasGuidelines :: "jsstring \<Rightarrow> bool" where
  "contributingHasGuidelines content =
     (case match content (sectionBody ''Contributing'') of
        None \<Rightarrow> False
      | Some m \<Rightarrow>
          test (literal (Group 1 (alts [Str (str ''pull request''), Str (str ''issue''),
                                        Str (str ''contribut''), Str (str ''guideline''),
                                        Str (str ''how to'')]))
                  True False False) (capture m 1))"

definition licenseHasName :: "jsstring \<Rightarrow> bool" where
  "licenseHasName content =
     (case match content (sectionBody ''License'') of
        None \<Rightarrow> False
      | Some m \<Rightarrow>
          test (literal (Group 1 (alts [Str (str ''mit''), Str (str ''apache''),
                                        Str (str ''gpl''), Str (str ''bsd''),
                                        Str (str ''mozilla''), Str (str ''unlicense''),
                                        Str (str ''lgpl''), Str (str ''cc'')]))
                  True False False) (capture m 1))"

definition extraCriteria_init :: "ExtraCriterion list" where
  "extraCriteria_init =
    [\<lparr>ec_name = ''Proper Title Format'', ec_check = returns properTitleFormat, ec_score = 3,
      ec_suggestion = ''Use a clear, properly capitalized project title.''\<rparr>,
     \<lparr>ec_name = ''Description Length'', ec_check = returns descriptionLength, ec_score = 3,
      ec_suggestion = ''Provide a more detailed project description.''\<rparr>,
     \<lparr>ec_name = ''Table of Contents'', ec_check = returns tableOfContents, ec_score = 3,
      ec_suggestion = ''Add a Table of Contents section.''\<rparr>,
     \<lparr>ec_name = ''Multiple Badges'', ec_check = returns multipleBadges, ec_score = 2,
      ec_suggestion = ''Add more badges (e.g., build, coverage, npm version).''\<rparr>,
     \<lparr>ec_name = ''Images/Screenshots'', ec_check = returns imagesScreenshots, ec_score = 3,
      ec_suggestion = ''Add images or screenshots to illustrate your project.''\<rparr>,
     \<lparr>ec_name = ''Links'', ec_check = returns links, ec_score = 2,
      ec_suggestion = ''Add relevant links (e.g., documentation, homepage, issues).''\<rparr>,
     \<lparr>ec_name = ''Lists'', ec_check = returns lists, ec_score = 2,
      ec_suggestion = ''Use lists to organize information.''\<rparr>,
     \<lparr>ec_name = ''Tables'', ec_check = returns tables, ec_score = 2,
      ec_suggestion = ''Add tables for structured data.''\<rparr>,
     \<lparr>ec_name = ''Inline Code'', ec_check = returns inlineCode, ec_score = 2,
      ec_suggestion = ''Use inline code for commands or filenames.''\<rparr>,
     \<lparr>ec_name = ''Blockquotes'', ec_check = returns blockquotes, ec_score = 1,
      ec_suggestion = ''Use blockquotes for tips or notes.''\<rparr>,
     \<lparr>ec_name = ''Consistent Heading Levels'', ec_check = returns consistentHeadingLevels,
      ec_score = 2,
      ec_suggestion = ''Use consistent heading levels for structure.''\<rparr>,
     \<lparr>ec_name = ''No Placeholder Text'', ec_check = returns noPlaceholderText, ec_score = 2,
      ec_suggestion = ''Remove placeholder text like TODO, TBD, or lorem ipsum.''\<rparr>,
     \<lparr>ec_name = ''No Broken Markdown'', ec_check = returns noBrokenMarkdown, ec_score = 2,
      ec_suggestion = ''Fix broken Markdown syntax (headings, links, etc).''\<rparr>,
     \<lparr>ec_name = ''Installation Section Has Code'',
      ec_check = returns (sectionHasCode ''Installation''), ec_score = 2,
      ec_suggestion = ''Add code blocks to the Installation section.''\<rparr>,
     \<lparr>ec_name = ''Usage Section Has Code'',
      ec_check = returns (sectionHasCode ''Usage''), ec_score = 2,
      ec_suggestion = ''Add code blocks to the Usage section.''\<rparr>,
     \<lparr>ec_name = ''Example Section Has Code'',
      ec_check = returns (sectionHasCode ''Example''), ec_score = 1,
      ec_suggestion = ''Add code blocks to the Example section.''\<rparr>,
     \<lparr>ec_name = ''Contributing Section Has Guidelines'',
      ec_check = returns contributingHasGuidelines, ec_score = 1,
      ec_suggestion = ''Add contribution guidelines to the Contributing section.''\<rparr>,
     \<lparr>ec_name = ''License Section Has License Name'',
      ec_check = returns licenseHasName, ec_score = 1,
      ec_suggestion = ''Specify the license type in the License section.''\<rparr>]"

section \<open>The analyzer\<close>

record ReadMeAnalyzer =
  sectionCriteria :: "SectionCriterion list"
  extraCriteria :: "ExtraCriterion list"

definition new_ReadMeAnalyzer :: ReadMeAnalyzer where
  "new_ReadMeAnalyzer =
     \<lparr>sectionCriteria = sectionCriteria_init, extraCriteria = extraCriteria_init\<rparr>"

record Outcome =
  present :: bool
  score :: int
  suggestion :: "string option"

record LengthOutcome =
  lines :: nat
  len_score :: int
  len_suggestion :: "string option"

text \<open>\<open>codeBlocks\<close> is half the number of fences, a number that need not be whole.\<close>

record FormattingOutcome =
  headings :: nat
  codeBlocks :: rat
  fmt_score :: int
  fmt_suggestion :: "string option"

text \<open>
  The objects \<open>sections\<close> and \<open>extras\<close> are association lists: an assignment to a new
  key appends, an assignment to an existing key replaces the value where it stands.
\<close>

record AnalysisReport =
  totalScore :: int
  maxScore :: int
  sections :: "(string \<times> Outcome) list"
  length' :: LengthOutcome
  formatting :: FormattingOutcome
  extras :: "(string \<times> Outcome) list"
  suggestions :: "string list"

text \<open>The local variables of \<open>analyze\<close> that the two loops and the two checks update.\<close>

record Locals =
  v_totalScore :: int
  v_maxScore :: int
  v_sections :: "(string \<times> Outcome) list"
  v_extras :: "(string \<times> Outcome) list"
  v_suggestions :: "string list"

definition outcome :: "bool \<Rightarrow> int \<Rightarrow> string \<Rightarrow> Outcome" where
  "outcome p sc sg =
     \<lparr>present = p, score = (if p then sc else 0), suggestion = (if p then None else Some sg)\<rparr>"

text \<open>The body of the loop over the section criteria after \<open>present\<close> is known.\<close>

definition sectionUpdate :: "SectionCriterion \<Rightarrow> bool \<Rightarrow> Locals \<Rightarrow> Locals" where
  "sectionUpdate crit p st =
     st\<lparr>v_sections := AList.update (sc_name crit)
                          (outcome p (sc_score crit) (sc_suggestion crit)) (v_sections st),
        v_totalScore := v_totalScore st + (if p then sc_score crit else 0),
        v_maxScore := v_maxScore st + sc_score crit,
        v_suggestions := (if \<not> p then v_suggestions st @ [sc_suggestion crit]
                          else v_suggestions st)\<rparr>"

text \<open>
  One round of that loop. The call \<open>crit.regex.test(content)\<close> stands outside any \<open>try\<close>:
  what it throws ends the round and the loop. It may update the RegExp object of the
  criterion.
\<close>

definition sectionStep ::
  "jsstring \<Rightarrow> SectionCriterion \<Rightarrow> Locals \<Rightarrow> jsError + (Locals \<times> SectionCriterion)" where
  "sectionStep content crit st =
     (case callTest (sc_regex crit) content of
        Inl e \<Rightarrow> Inl e
      | Inr (p, R) \<Rightarrow> Inr (sectionUpdate crit p st, crit\<lparr>sc_regex := R\<rparr>))"

fun sectionLoop ::
  "jsstring \<Rightarrow> SectionCriterion list \<Rightarrow> Locals \<Rightarrow> jsError + (Locals \<times> SectionCriterion list)" where
  "sectionLoop content [] st = Inr (st, [])"
| "sectionLoop content (crit # crits) st =
     (case sectionStep content crit st of
        Inl e \<Rightarrow> Inl e
      | Inr (st1, crit') \<Rightarrow>
          (case sectionLoop content crits st1 of
             Inl e \<Rightarrow> Inl e
           | Inr (st2, crits') \<Rightarrow> Inr (st2, crit' # crits')))"

text \<open>\<open>if (suggestion) suggestions.push(suggestion)\<close>: a string or \<open>undefined\<close> used as a
  condition is true for a non-empty string.\<close>

fun pushIfTruthy :: "string option \<Rightarrow> string list \<Rightarrow> string list" where
  "pushIfTruthy None xs = xs"
| "pushIfTruthy (Some t) xs = (if t = [] then xs else xs @ [t])"

definition lengthCheck :: "nat \<Rightarrow> int \<times> string option" where
  "lengthCheck n =
     (if n < 10 then (0, Some ''README is too short. Add more details.'')
      else if 200 < n
      then (5, Some ''README is very long. Consider splitting into sections or separate docs.'')
      else (10, None))"

definition formattingCheck :: "nat \<Rightarrow> rat \<Rightarrow> int \<times> string option" where
  "formattingCheck headingCount codeBlockCount =
     (if headingCount < 3 then (0, Some ''Add more headings to organize your README.'')
      else if codeBlockCount < 1
      then (0, Some ''Add code blocks for examples or usage instructions.'')
      else (10, None))"

text \<open>\<open>totalScore += s; maxScore += 10; if (suggestion) suggestions.push(suggestion)\<close>\<close>

definition addMetric :: "int \<times> string option \<Rightarrow> Locals \<Rightarrow> Locals" where
  "addMetric m st =
     st\<lparr>v_totalScore := v_totalScore st + fst m,
        v_maxScore := v_maxScore st + 10,
        v_suggestions := pushIfTruthy (snd m) (v_suggestions st)\<rparr>"

text \<open>The call of a check inside \<open>try\<close>, with \<open>catch { present = false }\<close>.\<close>

definition tryCheck :: "ExtraCriterion \<Rightarrow> jsstring \<Rightarrow> bool" where
  "tryCheck crit content = (case ec_check crit content of Inl e \<Rightarrow> False | Inr b \<Rightarrow> b)"

definition extraStep :: "jsstring \<Rightarrow> ExtraCriterion \<Rightarrow> Locals \<Rightarrow> Locals" where
  "extraStep content crit st =
     (let p = tryCheck crit content
      in st\<lparr>v_extras := AList.update (ec_name crit)
                            (outcome p (ec_score crit) (ec_suggestion crit)) (v_extras st),
             v_totalScore := v_totalScore st + (if p then ec_score crit else 0),
             v_maxScore := v_maxScore st + ec_score crit,
             v_suggestions := (if \<not> p \<and> ec_suggestion crit \<noteq> []
                               then v_suggestions st @ [ec_suggestion crit]
                               else v_suggestions st)\<rparr>)"

fun extraLoop :: "jsstring \<Rightarrow> ExtraCriterion list \<Rightarrow> Locals \<Rightarrow> Locals" where
  "extraLoop content [] st = st"
| "extraLoop content (crit # crits) st = extraLoop content crits (extraStep content crit st)"

definition headingCount :: "jsstring \<Rightarrow> nat" where
  "headingCount content =
     length (orEmpty (matchGlobal content (literal headingMarker False True True)))"

definition fenceCount :: "jsstring \<Rightarrow> nat" where
  "fenceCount content =
     length (orEmpty (matchGlobal content (literal (Str (str ''```'')) False False True)))"

definition codeBlockCount :: "jsstring \<Rightarrow> rat" where
  "codeBlockCount content = of_nat (fenceCount content) / 2"

definition initialLocals :: Locals where
  "initialLocals =
     \<lparr>v_totalScore = 0, v_maxScore = 0, v_sections = [], v_extras = [], v_suggestions = []\<rparr>"

text \<open>
  What \<open>analyze\<close> does after the section loop: the length check, the formatting check,
  the loop over the extra criteria, and the report. Nothing here throws: the checks are
  called inside \<open>try\<close>.
\<close>

definition afterSections :: "ExtraCriterion list \<Rightarrow> jsstring \<Rightarrow> Locals \<Rightarrow> AnalysisReport" where
  "afterSections crits content st1 =
     (let lns = split 10 content;
          lengthResult = lengthCheck (length lns);
          st2 = addMetric lengthResult st1;
          formattingResult = formattingCheck (headingCount content) (codeBlockCount content);
          st3 = addMetric formattingResult st2;
          st4 = extraLoop content crits st3
      in \<lparr>totalScore = v_totalScore st4,
          maxScore = v_maxScore st4,
          sections = v_sections st4,
          length' = \<lparr>lines = length lns, len_score = fst lengthResult,
                      len_suggestion = snd lengthResult\<rparr>,
          formatting = \<lparr>headings = headingCount content,
                         codeBlocks = codeBlockCount content,
                         fmt_score = fst formattingResult,
                         fmt_suggestion = snd formattingResult\<rparr>,
          extras = v_extras st4,
          suggestions = v_suggestions st4\<rparr>)"

text \<open>
  The body of \<open>analyze\<close> once the document text is read: the section loop, then the
  rest. A fault of the section loop leaves the function; otherwise the report is
  returned, and the analyzer with its section criteria as the calls of \<open>test\<close> left them.
\<close>

definition analyzeContent ::
  "ReadMeAnalyzer \<Rightarrow> jsstring \<Rightarrow> jsError + (AnalysisReport \<times> ReadMeAnalyzer)" where
  "analyzeContent this content =
     (case sectionLoop content (sectionCriteria this) initialLocals of
        Inl e \<Rightarrow> Inl e
      | Inr (st1, crits') \<Rightarrow>
          Inr (afterSections (extraCriteria this) content st1,
               this\<lparr>sectionCriteria := crits'\<rparr>))"


text \<open>
  The report of a freshly constructed analyzer, as the command line makes one. Its
  section criteria are literals, so the analysis returns for every document
  (\<open>fresh_analyzer_returns\<close> below) and \<open>report\<close> is what it returns.
\<close>

definition report :: "jsstring \<Rightarrow> AnalysisReport" where
  "report content = fst (projr (analyzeContent new_ReadMeAnalyzer content))"

section \<open>What the report is compared with\<close>

text \<open>A section criterion is present when \<open>test\<close> on its RegExp object says so.\<close>

definition sectionPresent :: "jsstring \<Rightarrow> SectionCriterion \<Rightarrow> bool" where
  "sectionPresent content crit = fst (RegExp_test (sc_regex crit) content)"

text \<open>A criterion whose RegExp object has the built-in \<open>test\<close>.\<close>

definition builtinTest :: "SectionCriterion \<Rightarrow> bool" where
  "builtinTest crit = (ownTest (sc_regex crit) = None)"

text \<open>The local variables after a section loop in which no test throws.\<close>

definition sectionsDone :: "jsstring \<Rightarrow> SectionCriterion list \<Rightarrow> Locals \<Rightarrow> Locals" where
  "sectionsDone content crits st =
     foldl (\<lambda>s crit. sectionUpdate crit (sectionPresent content crit) s) st crits"

definition reportFrom :: "ReadMeAnalyzer \<Rightarrow> jsstring \<Rightarrow> AnalysisReport" where
  "reportFrom this content =
     afterSections (extraCriteria this) content
       (sectionsDone content (sectionCriteria this) initialLocals)"

definition sectionOutcomes :: "jsstring \<Rightarrow> SectionCriterion list \<Rightarrow> (string \<times> Outcome) list" where
  "sectionOutcomes content crits =
     map (\<lambda>crit. (sc_name crit,
                   outcome (sectionPresent content crit) (sc_score crit) (sc_suggestion crit)))
       crits"

definition extraOutcomes :: "jsstring \<Rightarrow> ExtraCriterion list \<Rightarrow> (string \<times> Outcome) list" where
  "extraOutcomes content crits =
     map (\<lambda>crit. (ec_name crit,
                   outcome (tryCheck crit content) (ec_score crit) (ec_suggestion crit)))
       crits"

text \<open>
  The suggestion list as the specification words it: one entry, the remediation text,
  for every rule outcome that is not satisfied and every metric outcome that carries a
  remediation, when that text is not empty, and nothing for the others; the section
  rules first, then the length metric, the formatting metric and the extra rules.
\<close>

fun ruleRemediation :: "string \<times> Outcome \<Rightarrow> string list" where
  "ruleRemediation (nm, out) =
     (case suggestion out of
        None \<Rightarrow> []
      | Some t \<Rightarrow> if present out \<or> t = [] then [] else [t])"

fun metricRemediation :: "string option \<Rightarrow> string list" where
  "metricRemediation None = []"
| "metricRemediation (Some t) = (if t = [] then [] else [t])"

definition expectedSuggestions :: "AnalysisReport \<Rightarrow> string list" where
  "expectedSuggestions r =
     concat (map ruleRemediation (sections r))
     @ metricRemediation (len_suggestion (length' r))
     @ metricRemediation (fmt_suggestion (formatting r))
     @ concat (map ruleRemediation (extras r))"

text \<open>
  The fences of a document counted by reading it from left to right: three backquotes
  in a row are one fence, and the count goes on after them.
\<close>

fun countFences :: "jsstring \<Rightarrow> nat" where
  "countFences [] = 0"
| "countFences (c # cs) =
     (if take 3 (c # cs) = [96, 96, 96] then Suc (countFences (drop 2 cs))
      else countFences cs)"

text \<open>The heading markers of a document, and the number of \<open>#\<close> a marker starts with.\<close>

definition headingMarkers :: "jsstring \<Rightarrow> jsstring list" where
  "headingMarkers content = orEmpty (matchGlobal content (literal headingMarker False True True))"

definition hashCount :: "jsstring \<Rightarrow> nat" where
  "hashCount m = length (takeWhile (\<lambda>x. x = 35) m)"

subsection \<open>Sample analyzers and documents\<close>




text \<open>An analyzer whose title pattern has the \<open>g\<close> flag, as no pattern of the source has.\<close>

definition globalTitleAnalyzer :: ReadMeAnalyzer where
  \<open>globalTitleAnalyzer =
     \<lparr>sectionCriteria =
        [\<lparr>sc_name = ''Title'',
          sc_regex = literal (seqs [Bol, hash, ws, Plus True Dot]) False True True,
          sc_score = 10,
          sc_suggestion = ''Add a title at the top using "# Project Name".''\<rparr>],
      extraCriteria = []\<rparr>\<close>

text \<open>Headings of levels 1, 2, 2 and 4.\<close>

definition headings1224 :: jsstring where
  "headings1224 =
     str ''# A'' @ [10] @ str ''## B'' @ [10] @ str ''## C'' @ [10] @ str ''#### D''"

text \<open>Three headings and three code fences.\<close>

definition threeFences :: jsstring where
  "threeFences =
     str ''# a'' @ [10] @ str ''# b'' @ [10] @ str ''# c'' @ [10] @ str ''``` ``` ```''"

section \<open>Evaluation\<close>

lemmas engine_defs = str_def isLineTerminator_def isWhiteSpace_def isWordChar_def isDigit_def
  canonicalize_def consume_def progressed_def setCapture_def atLineStart_def atLineEnd_def
  seqs_def charBefore_def RegExp_test_def literal_def test_def match_def capture_def
  matchGlobal_def orEmpty_def Let_def hash_def ws_def anyChar_def sectionEnd_def
  sectionHeading_def sectionBody_def badge_def headingMarker_def trim_def

lemmas check_defs = properTitleFormat_def descriptionLength_def tableOfContents_def
  multipleBadges_def imagesScreenshots_def links_def lists_def tables_def inlineCode_def
  blockquotes_def headingLevels_def consistentHeadingLevels_def noPlaceholderText_def
  noBrokenMarkdown_def sectionHasCode_def contributingHasGuidelines_def licenseHasName_def
  returns_def tryCheck_def

subsection \<open>Matches of a pattern\<close>

lemma consume_elem:
  "e \<in> set (consume P s) \<Longrightarrow> \<exists>c. rest s = c # rest e \<and> P c"
  by (cases "rest s") (auto simp: consume_def split: if_splits)

lemma repeat_consume:
  "e \<in> set (repeat g (consume P) n s) \<Longrightarrow> \<exists>w. rest s = w @ rest e \<and> list_all P w"
proof (induction n arbitrary: s)
  case 0
  then show ?case by simp
next
  case (Suc n)
  from Suc.prems consider "e = s"
    | s' where "s' \<in> set (consume P s)" "e \<in> set (repeat g (consume P) n s')"
    by (auto simp: Let_def split: if_splits)
  then show ?case
  proof cases
    case 1
    then show ?thesis by simp
  next
    case 2
    from consume_elem [OF 2(1)] obtain c where c: "rest s = c # rest s'" "P c" by blast
    from Suc.IH [OF 2(2)] obtain w where w: "rest s' = w @ rest e" "list_all P w" by blast
    have "rest s = (c # w) @ rest e \<and> list_all P (c # w)" using c w by simp
    then show ?thesis by blast
  qed
qed

lemma plus_consume:
  assumes "ms a ic ml = consume P" and "e \<in> set (ms (Plus g a) ic ml s)"
  shows "\<exists>w. w \<noteq> [] \<and> rest s = w @ rest e \<and> list_all P w"
proof -
  from assms obtain s' where s': "s' \<in> set (consume P s)"
      "e \<in> set (repeat g (consume P) (length (rest s')) s')"
    by auto
  from consume_elem [OF s'(1)] obtain c where c: "rest s = c # rest s'" "P c" by blast
  from repeat_consume [OF s'(2)] obtain w where w: "rest s' = w @ rest e" "list_all P w" by blast
  have "c # w \<noteq> [] \<and> rest s = (c # w) @ rest e \<and> list_all P (c # w)" using c w by simp
  then show ?thesis by blast
qed

lemma search_elem:
  "search r ic ml p S = Some (i, e) \<Longrightarrow>
   i \<le> length S \<and> (\<exists>q. e \<in> set (ms r ic ml (MState q (drop i S) [])))"
proof (induction S arbitrary: p i)
  case Nil
  then obtain es where "ms r ic ml (MState p [] []) = e # es" and "i = 0"
    by (auto split: list.splits)
  then have "i \<le> length ([]::jsstring)" and "e \<in> set (ms r ic ml (MState p (drop i []) []))"
    by simp_all
  then show ?case by blast
next
  case (Cons c cs)
  show ?case
  proof (cases "ms r ic ml (MState p (c # cs) [])")
    case Nil
    with Cons.prems obtain i' where i': "i = Suc i'" "search r ic ml (Some c) cs = Some (i', e)"
      by auto
    from Cons.IH [OF i'(2)] show ?thesis using i'(1) by simp
  next
    case (Cons e' es)
    with Cons.prems have "i = 0" "e = e'" by auto
    with Cons have "e \<in> set (ms r ic ml (MState p (drop i (c # cs)) []))" by simp
    then show ?thesis using \<open>i = 0\<close> by blast
  qed
qed

lemma search_start:
  "search r ic ml p S = None \<or>
   (\<exists>i e q. search r ic ml p S = Some (i, e) \<and> i \<le> length S
            \<and> e \<in> set (ms r ic ml (MState q (drop i S) [])))"
proof (cases "search r ic ml p S")
  case None
  then show ?thesis by simp
next
  case (Some a)
  obtain i e where a: "a = (i, e)" by (cases a)
  from search_elem [OF Some [unfolded a]] show ?thesis using Some a by blast
qed

text \<open>What holds of the text of every way to match holds of every match of the loop.\<close>

lemma matchLoop_all:
  "(\<And>q s e. e \<in> set (ms r ic ml (MState q s [])) \<Longrightarrow> \<exists>m. Q m \<and> s = m @ rest e) \<Longrightarrow>
   res = None \<or> (\<exists>i e q. res = Some (i, e) \<and> i \<le> length S
                        \<and> e \<in> set (ms r ic ml (MState q (drop i S) []))) \<Longrightarrow>
   list_all Q (matchLoop r ic ml S res)"
proof (induction r ic ml S res rule: matchLoop.induct)
  case (1 r ic ml S)
  show ?case by simp
next
  case (2 r ic ml S i e)
  from "2.prems"(2) obtain q where iS: "i \<le> length S"
      and e: "e \<in> set (ms r ic ml (MState q (drop i S) []))"
    by auto
  from "2.prems"(1) [OF e] obtain m where m: "Q m" "drop i S = m @ rest e" by blast
  have len: "length S - i - length (rest e) = length m"
    using arg_cong [OF m(2), of length] by simp
  have tk: "take (length m) (drop i S) = m" using m(2) by simp
  let ?j = "i + max 1 (length m)"
  let ?next = "matchLoop r ic ml (drop ?j S) (search r ic ml (Some (S ! (?j - 1))) (drop ?j S))"
  have unfold: "matchLoop r ic ml S (Some (i, e)) =
      (if length m = 0 \<and> length S \<le> i then [m] else m # ?next)"
    by (simp only: matchLoop.simps Let_def len tk)
  show ?case
  proof (cases "length m = 0 \<and> length S \<le> i")
    case True
    then show ?thesis unfolding unfold using m(1) by simp
  next
    case False
    have "list_all Q ?next"
    proof (rule "2.IH" [OF refl refl refl, unfolded len])
      show "\<not> (length m = 0 \<and> length S \<le> i)"
        using False .
      show "\<And>q s e. e \<in> set (ms r ic ml (MState q s [])) \<Longrightarrow> \<exists>m. Q m \<and> s = m @ rest e"
        by (rule "2.prems"(1))
      show "search r ic ml (Some (S ! (?j - 1))) (drop ?j S) = None \<or>
            (\<exists>i' e' q'. search r ic ml (Some (S ! (?j - 1))) (drop ?j S) = Some (i', e')
                \<and> i' \<le> length (drop ?j S)
                \<and> e' \<in> set (ms r ic ml (MState q' (drop i' (drop ?j S)) [])))"
        by (rule search_start)
    qed
    then show ?thesis unfolding unfold using False m(1) by auto
  qed
qed

lemma orEmpty_matchGlobal:
  "orEmpty (matchGlobal S R) =
     matchLoop (re_source R) (re_ignoreCase R) (re_multiline R) S
       (search (re_source R) (re_ignoreCase R) (re_multiline R) None S)"
  by (simp add: matchGlobal_def orEmpty_def split: list.splits)

lemma matchLoop_shift:
  "matchLoop r ic ml (c # cs) (map_option (\<lambda>(i, e). (Suc i, e)) res) = matchLoop r ic ml cs res"
proof (cases res)
  case None
  then show ?thesis by simp
next
  case (Some a)
  obtain i e where a: "a = (i, e)" by (cases a)
  show ?thesis unfolding Some a by (simp add: Let_def nth_Cons')
qed

lemma matchLoop_skip:
  "ms r ic ml (MState p (c # cs) []) = [] \<Longrightarrow>
   matchLoop r ic ml (c # cs) (search r ic ml p (c # cs)) =
     matchLoop r ic ml cs (search r ic ml (Some c) cs)"
  by (simp add: matchLoop_shift)

subsection \<open>Code fences\<close>

lemma consumeStr_fence:
  "consumeStr False (str ''```'') (MState p S []) =
     (if take 3 S = [96, 96, 96] then [MState (Some 96) (drop 3 S) []] else [])"
proof (cases S)
  case Nil
  then show ?thesis by (simp add: engine_defs)
next
  case (Cons a S1)
  show ?thesis
  proof (cases S1)
    case Nil
    then show ?thesis using Cons by (simp add: engine_defs)
  next
    case (Cons b S2)
    note S1 = this
    show ?thesis
    proof (cases S2)
      case Nil
      then show ?thesis using S1 \<open>S = a # S1\<close> by (simp add: engine_defs)
    next
      case (Cons d S3)
      then show ?thesis using S1 \<open>S = a # S1\<close> by (simp add: engine_defs)
    qed
  qed
qed

lemma fence_loop_count:
  "length (matchLoop (Str (str ''```'')) False False S
             (search (Str (str ''```'')) False False p S)) = countFences S"
proof (induction S arbitrary: p rule: countFences.induct)
  case 1
  show ?case by (simp add: consumeStr_fence)
next
  case (2 c cs)
  show ?case
  proof (cases "take 3 (c # cs) = [96, 96, 96]")
    case True
    then obtain cs' where cs: "cs = 96 # 96 # cs'" and c: "c = 96"
      by (cases cs; cases "tl cs") auto
    have "length (matchLoop (Str (str ''```'')) False False (drop 2 cs)
             (search (Str (str ''```'')) False False (Some 96) (drop 2 cs))) = countFences (drop 2 cs)"
      using "2.IH"(1) [OF True] .
    then show ?thesis using True by (simp add: consumeStr_fence cs c Let_def)
  next
    case False
    then have "ms (Str (str ''```'')) False False (MState p (c # cs) []) = []"
      by (simp add: consumeStr_fence)
    then show ?thesis using "2.IH"(2) [OF False] False
      by (simp only: matchLoop_skip countFences.simps if_False)
  qed
qed

lemma fenceCount_countFences: "fenceCount c = countFences c"
  by (simp add: fenceCount_def orEmpty_matchGlobal literal_def fence_loop_count)

subsection \<open>Heading markers\<close>

lemma ms_hash: "ms hash False True = consume (\<lambda>c. c = 35)"
  by (rule ext) (simp add: hash_def str_def canonicalize_def consume_def split: list.splits)

lemma ms_ws: "ms ws False True = consume isWhiteSpace"
  by (rule ext) (simp add: ws_def)

text \<open>A run of \<open>#\<close> followed by white space trims to the run.\<close>

lemma marker_trim:
  assumes "hs \<noteq> []" "w \<noteq> []" "list_all (\<lambda>c. c = 35) hs" "list_all isWhiteSpace w"
  shows "length (trim (hs @ w)) = hashCount (hs @ w) \<and> 1 \<le> hashCount (hs @ w)"
proof -
  have n35: "\<not> isWhiteSpace 35" by (simp add: isWhiteSpace_def)
  have hd_hs: "hd hs = 35" using assms(1,3) by (cases hs) auto
  have last_hs: "last hs = 35" using assms(1,3) by (auto simp: list_all_iff)
  have d1: "dropWhile isWhiteSpace (hs @ w) = hs @ w"
    using assms(1) hd_hs n35 by (cases hs) auto
  have d2: "dropWhile isWhiteSpace (rev w @ rev hs) = rev hs"
  proof -
    have "dropWhile isWhiteSpace (rev w @ rev hs) = dropWhile isWhiteSpace (rev hs)"
      by (rule dropWhile_append2) (use assms(4) in \<open>auto simp: list_all_iff\<close>)
    also have "\<dots> = rev hs"
      using assms(1) last_hs n35 by (cases "rev hs") (auto simp: hd_rev dest: arg_cong [of _ _ hd])
    finally show ?thesis .
  qed
  have t: "trim (hs @ w) = hs" by (simp add: trim_def d1 d2)
  have "\<not> (hd w = 35)" using assms(2,4) n35 by (cases w) auto
  then have tw: "takeWhile (\<lambda>c. c = 35) (hs @ w) = hs"
    using assms(2,3) by (cases w) (auto simp: takeWhile_append2 list_all_iff)
  show ?thesis using t tw assms(1) by (cases hs) (auto simp: hashCount_def)
qed

lemma ms_headingMarker:
  assumes "e \<in> set (ms headingMarker False True s)"
  shows "\<exists>m. (length (trim m) = hashCount m \<and> 1 \<le> hashCount m) \<and> rest s = m @ rest e"
proof -
  from assms obtain s1 where s1: "s1 \<in> set (ms (Plus True hash) False True s)"
      "e \<in> set (ms (Plus True ws) False True s1)"
    by (auto simp: headingMarker_def seqs_def split: if_splits)
  from plus_consume [OF ms_hash s1(1)] obtain hs where
    hs: "hs \<noteq> []" "rest s = hs @ rest s1" "list_all (\<lambda>c. c = 35) hs" by blast
  from plus_consume [OF ms_ws s1(2)] obtain w where
    w: "w \<noteq> []" "rest s1 = w @ rest e" "list_all isWhiteSpace w" by blast
  have "rest s = (hs @ w) @ rest e" using hs w by simp
  with marker_trim [OF hs(1) w(1) hs(3) w(3)] show ?thesis by blast
qed

lemma headingMarkers_levels:
  "list_all (\<lambda>m. length (trim m) = hashCount m \<and> 1 \<le> hashCount m) (headingMarkers c)"
  unfolding headingMarkers_def orEmpty_matchGlobal
proof (rule matchLoop_all)
  fix q s e
  assume "e \<in> set (ms (re_source (literal headingMarker False True True))
                       (re_ignoreCase (literal headingMarker False True True))
                       (re_multiline (literal headingMarker False True True)) (MState q s []))"
  then have "e \<in> set (ms headingMarker False True (MState q s []))"
    by (simp add: literal_def)
  from ms_headingMarker [OF this]
  show "\<exists>m. (length (trim m) = hashCount m \<and> 1 \<le> hashCount m) \<and> s = m @ rest e" by simp
qed (rule search_start)

lemma headingLevels_hashCount:
  "headingLevels c = map hashCount (headingMarkers c)
   \<and> list_all (\<lambda>h. 1 \<le> h) (headingLevels c)"
proof -
  have a: "length (trim m) = hashCount m" and b: "1 \<le> length (trim m)"
    if "m \<in> set (headingMarkers c)" for m
    using headingMarkers_levels [of c] that by (auto simp: list_all_iff)
  have "headingLevels c = map (\<lambda>m. length (trim m)) (headingMarkers c)"
    by (simp add: headingLevels_def headingMarkers_def)
  then show ?thesis using a b by (simp add: list_all_iff)
qed

subsection \<open>The two loops\<close>

lemma update_fresh: "k \<notin> fst ` set al \<Longrightarrow> AList.update k v al = al @ [(k, v)]"
  by (induction al) auto

lemma sectionsDone_Cons:
  "sectionsDone c (crit # crits) st =
     sectionsDone c crits (sectionUpdate crit (sectionPresent c crit) st)"
  by (simp add: sectionsDone_def)

lemma sectionsDone_total:
  "v_totalScore (sectionsDone c crits st) =
     v_totalScore st + sum_list (map (\<lambda>crit. if sectionPresent c crit then sc_score crit else 0) crits)"
  by (induction crits arbitrary: st)
     (simp_all add: sectionsDone_Cons sectionUpdate_def, simp add: sectionsDone_def)

lemma sectionsDone_max:
  "v_maxScore (sectionsDone c crits st) = v_maxScore st + sum_list (map sc_score crits)"
  by (induction crits arbitrary: st)
     (simp_all add: sectionsDone_Cons sectionUpdate_def, simp add: sectionsDone_def)

lemma sectionsDone_suggestions:
  "v_suggestions (sectionsDone c crits st) =
     v_suggestions st @ map sc_suggestion (filter (\<lambda>crit. \<not> sectionPresent c crit) crits)"
  by (induction crits arbitrary: st)
     (simp_all add: sectionsDone_Cons sectionUpdate_def, simp add: sectionsDone_def)

lemma sectionsDone_extras:
  "v_extras (sectionsDone c crits st) = v_extras st"
  by (induction crits arbitrary: st)
     (simp_all add: sectionsDone_Cons sectionUpdate_def, simp add: sectionsDone_def)

lemma sectionsDone_sections:
  "distinct (map sc_name crits) \<Longrightarrow> set (map sc_name crits) \<inter> fst ` set (v_sections st) = {} \<Longrightarrow>
   v_sections (sectionsDone c crits st) = v_sections st @ sectionOutcomes c crits"
proof (induction crits arbitrary: st)
  case Nil
  then show ?case by (simp add: sectionOutcomes_def sectionsDone_def)
next
  case (Cons crit crits)
  let ?st1 = "sectionUpdate crit (sectionPresent c crit) st"
  have fresh: "sc_name crit \<notin> fst ` set (v_sections st)"
    using Cons.prems(2) by auto
  have s1: "v_sections ?st1 = v_sections st @ sectionOutcomes c [crit]"
    using fresh by (simp add: sectionUpdate_def update_fresh sectionOutcomes_def)
  have d: "distinct (map sc_name crits)" using Cons.prems(1) by simp
  have disj: "set (map sc_name crits) \<inter> fst ` set (v_sections ?st1) = {}"
    using Cons.prems s1 by (auto simp: sectionOutcomes_def)
  have "v_sections (sectionsDone c (crit # crits) st) = v_sections (sectionsDone c crits ?st1)"
    by (simp only: sectionsDone_Cons)
  also have "\<dots> = v_sections ?st1 @ sectionOutcomes c crits"
    using Cons.IH[OF d disj] .
  finally show ?case using s1 by (simp add: sectionOutcomes_def)
qed

text \<open>With built-in tests the section loop returns, and is the fold of its updates.\<close>

lemma sectionLoop_builtin:
  "list_all builtinTest crits \<Longrightarrow>
   sectionLoop c crits st =
     Inr (sectionsDone c crits st,
          map (\<lambda>crit. crit\<lparr>sc_regex := snd (RegExp_test (sc_regex crit) c)\<rparr>) crits)"
proof (induction crits arbitrary: st)
  case Nil
  show ?case by (simp add: sectionsDone_def)
next
  case (Cons crit crits)
  have step: "sectionStep c crit st =
      Inr (sectionUpdate crit (sectionPresent c crit) st,
           crit\<lparr>sc_regex := snd (RegExp_test (sc_regex crit) c)\<rparr>)"
    using Cons.prems
    by (simp add: sectionStep_def callTest_def builtinTest_def sectionPresent_def split_beta)
  have "list_all builtinTest crits" using Cons.prems by simp
  from Cons.IH [OF this] show ?case by (simp add: step sectionsDone_Cons)
qed

text \<open>A test that throws ends the loop with its fault.\<close>

lemma sectionLoop_throws:
  "callTest (sc_regex crit) c = Inl e \<Longrightarrow> sectionLoop c (crit # crits) st = Inl e"
  by (simp add: sectionStep_def)

lemma extraLoop_total:
  "v_totalScore (extraLoop c crits st) =
     v_totalScore st + sum_list (map (\<lambda>crit. if tryCheck crit c then ec_score crit else 0) crits)"
  by (induction crits arbitrary: st) (simp_all add: extraStep_def Let_def)

lemma extraLoop_max:
  "v_maxScore (extraLoop c crits st) = v_maxScore st + sum_list (map ec_score crits)"
  by (induction crits arbitrary: st) (simp_all add: extraStep_def Let_def)

lemma extraLoop_suggestions:
  "v_suggestions (extraLoop c crits st) =
     v_suggestions st @ map ec_suggestion (filter (\<lambda>crit. \<not> tryCheck crit c \<and> ec_suggestion crit \<noteq> []) crits)"
  by (induction crits arbitrary: st) (simp_all add: extraStep_def Let_def)

lemma extraLoop_sections:
  "v_sections (extraLoop c crits st) = v_sections st"
  by (induction crits arbitrary: st) (simp_all add: extraStep_def Let_def)

lemma extraLoop_extras:
  "distinct (map ec_name crits) \<Longrightarrow> set (map ec_name crits) \<inter> fst ` set (v_extras st) = {} \<Longrightarrow>
   v_extras (extraLoop c crits st) = v_extras st @ extraOutcomes c crits"
proof (induction crits arbitrary: st)
  case Nil
  then show ?case by (simp add: extraOutcomes_def)
next
  case (Cons crit crits)
  let ?st1 = "extraStep c crit st"
  have fresh: "ec_name crit \<notin> fst ` set (v_extras st)"
    using Cons.prems(2) by auto
  have s1: "v_extras ?st1 = v_extras st @ extraOutcomes c [crit]"
    using fresh by (simp add: extraStep_def Let_def update_fresh extraOutcomes_def)
  have d: "distinct (map ec_name crits)" using Cons.prems(1) by simp
  have disj: "set (map ec_name crits) \<inter> fst ` set (v_extras ?st1) = {}"
    using Cons.prems s1 by (auto simp: extraOutcomes_def)
  show ?case using Cons.IH[OF d disj] s1 by (simp add: extraOutcomes_def)
qed

subsection \<open>The fields of the report\<close>

lemma report_totalScore:
  "totalScore (reportFrom this c) =
     sum_list (map (\<lambda>crit. if sectionPresent c crit then sc_score crit else 0) (sectionCriteria this))
     + fst (lengthCheck (length (split 10 c)))
     + fst (formattingCheck (headingCount c) (codeBlockCount c))
     + sum_list (map (\<lambda>crit. if tryCheck crit c then ec_score crit else 0) (extraCriteria this))"
  by (simp add: reportFrom_def afterSections_def initialLocals_def Let_def extraLoop_total
      addMetric_def sectionsDone_total)

lemma report_maxScore:
  "maxScore (reportFrom this c) =
     sum_list (map sc_score (sectionCriteria this)) + 10 + 10
     + sum_list (map ec_score (extraCriteria this))"
  by (simp add: reportFrom_def afterSections_def initialLocals_def Let_def extraLoop_max
      addMetric_def sectionsDone_max)

lemma report_suggestions:
  "suggestions (reportFrom this c) =
     map sc_suggestion (filter (\<lambda>crit. \<not> sectionPresent c crit) (sectionCriteria this))
     @ pushIfTruthy (snd (lengthCheck (length (split 10 c)))) []
     @ pushIfTruthy (snd (formattingCheck (headingCount c) (codeBlockCount c))) []
     @ map ec_suggestion
         (filter (\<lambda>crit. \<not> tryCheck crit c \<and> ec_suggestion crit \<noteq> []) (extraCriteria this))"
  by (simp add: reportFrom_def afterSections_def initialLocals_def Let_def
      extraLoop_suggestions addMetric_def sectionsDone_suggestions lengthCheck_def
      formattingCheck_def)

lemma report_sections:
  "distinct (map sc_name (sectionCriteria this)) \<Longrightarrow>
   sections (reportFrom this c) = sectionOutcomes c (sectionCriteria this)"
  by (simp add: reportFrom_def afterSections_def initialLocals_def Let_def extraLoop_sections
      addMetric_def sectionsDone_sections)

lemma report_extras:
  "distinct (map ec_name (extraCriteria this)) \<Longrightarrow>
   extras (reportFrom this c) = extraOutcomes c (extraCriteria this)"
  by (simp add: reportFrom_def afterSections_def initialLocals_def Let_def extraLoop_extras
      addMetric_def sectionsDone_extras)

lemma report_length:
  "length' (reportFrom this c) =
     \<lparr>lines = length (split 10 c), len_score = fst (lengthCheck (length (split 10 c))),
      len_suggestion = snd (lengthCheck (length (split 10 c)))\<rparr>"
  by (simp add: reportFrom_def afterSections_def Let_def)

lemma report_formatting:
  "formatting (reportFrom this c) =
     \<lparr>headings = headingCount c, codeBlocks = codeBlockCount c,
      fmt_score = fst (formattingCheck (headingCount c) (codeBlockCount c)),
      fmt_suggestion = snd (formattingCheck (headingCount c) (codeBlockCount c))\<rparr>"
  by (simp add: reportFrom_def afterSections_def Let_def)

text \<open>With built-in tests the analysis returns: the report, and the analyzer as the tests
  left it.\<close>

lemma analyzeContent_builtin:
  "list_all builtinTest (sectionCriteria this) \<Longrightarrow>
   analyzeContent this c =
     Inr (reportFrom this c,
          this\<lparr>sectionCriteria :=
            map (\<lambda>crit. crit\<lparr>sc_regex := snd (RegExp_test (sc_regex crit) c)\<rparr>)
              (sectionCriteria this)\<rparr>)"
  by (simp add: analyzeContent_def sectionLoop_builtin reportFrom_def)

lemma RegExp_test_nonglobal: "\<not> re_global R \<Longrightarrow> snd (RegExp_test R S) = R"
  by (simp add: RegExp_test_def Let_def split: option.splits prod.splits)

lemma nonglobal_crits_unchanged:
  "list_all (\<lambda>crit. \<not> re_global (sc_regex crit)) crits \<Longrightarrow>
   map (\<lambda>crit. crit\<lparr>sc_regex := snd (RegExp_test (sc_regex crit) c)\<rparr>) crits = crits"
  by (induction crits) (simp_all add: RegExp_test_nonglobal)

subsection \<open>The catalogs\<close>

lemma section_names:
  "map sc_name sectionCriteria_init =
     [''Title'', ''Description'', ''Installation'', ''Usage'', ''Example'', ''Contributing'',
      ''License'', ''Badges'']"
  by (simp add: sectionCriteria_init_def)

lemma section_scores: "map sc_score sectionCriteria_init = [10, 10, 10, 10, 5, 5, 10, 5]"
  by (simp add: sectionCriteria_init_def)

lemma extra_names:
  "map ec_name extraCriteria_init =
     [''Proper Title Format'', ''Description Length'', ''Table of Contents'', ''Multiple Badges'',
      ''Images/Screenshots'', ''Links'', ''Lists'', ''Tables'', ''Inline Code'', ''Blockquotes'',
      ''Consistent Heading Levels'', ''No Placeholder Text'', ''No Broken Markdown'',
      ''Installation Section Has Code'', ''Usage Section Has Code'', ''Example Section Has Code'',
      ''Contributing Section Has Guidelines'', ''License Section Has License Name'']"
  by (simp add: extraCriteria_init_def)

lemma extra_scores:
  "map ec_score extraCriteria_init = [3, 3, 3, 2, 3, 2, 2, 2, 2, 1, 2, 2, 2, 2, 2, 1, 1, 1]"
  by (simp add: extraCriteria_init_def)

lemma section_names_distinct: "distinct (map sc_name sectionCriteria_init)"
  by (simp add: section_names)

lemma extra_names_distinct: "distinct (map ec_name extraCriteria_init)"
  by (simp add: extra_names)

lemma section_suggestions_nonempty: "list_all (\<lambda>crit. sc_suggestion crit \<noteq> []) sectionCriteria_init"
  by (simp add: sectionCriteria_init_def)

lemma extra_suggestions_nonempty: "list_all (\<lambda>crit. ec_suggestion crit \<noteq> []) extraCriteria_init"
  by (simp add: extraCriteria_init_def)

lemma section_regexes_not_global: "list_all (\<lambda>crit. \<not> re_global (sc_regex crit)) sectionCriteria_init"
  by (simp add: sectionCriteria_init_def literal_def sectionHeading_def)

lemma section_tests_builtin: "list_all builtinTest sectionCriteria_init"
  by (simp add: sectionCriteria_init_def builtinTest_def literal_def sectionHeading_def)

lemma sectionOutcomes_scores:
  "sum_list (map (score \<circ> snd) (sectionOutcomes c crits)) =
     sum_list (map (\<lambda>crit. if sectionPresent c crit then sc_score crit else 0) crits)"
  by (induction crits) (simp_all add: sectionOutcomes_def outcome_def)

lemma extraOutcomes_scores:
  "sum_list (map (score \<circ> snd) (extraOutcomes c crits)) =
     sum_list (map (\<lambda>crit. if tryCheck crit c then ec_score crit else 0) crits)"
  by (induction crits) (simp_all add: extraOutcomes_def outcome_def)

lemma sectionOutcomes_names: "map fst (sectionOutcomes c crits) = map sc_name crits"
  by (simp add: sectionOutcomes_def comp_def)

lemma extraOutcomes_names: "map fst (extraOutcomes c crits) = map ec_name crits"
  by (simp add: extraOutcomes_def comp_def)

lemma new_sections [simp]: "sectionCriteria new_ReadMeAnalyzer = sectionCriteria_init"
  by (simp add: new_ReadMeAnalyzer_def)

lemma new_extras [simp]: "extraCriteria new_ReadMeAnalyzer = extraCriteria_init"
  by (simp add: new_ReadMeAnalyzer_def)

text \<open>The analysis of a fresh analyzer returns, and leaves the analyzer as it was.\<close>

lemma analyze_fresh:
  "analyzeContent new_ReadMeAnalyzer c =
     Inr (reportFrom new_ReadMeAnalyzer c, new_ReadMeAnalyzer)"
  using analyzeContent_builtin [of new_ReadMeAnalyzer c]
  by (simp add: section_tests_builtin
      nonglobal_crits_unchanged [OF section_regexes_not_global] new_ReadMeAnalyzer_def)

lemma report_eq: "report c = reportFrom new_ReadMeAnalyzer c"
  by (simp add: report_def analyze_fresh)

lemma fresh_analyzer_returns:
  "analyzeContent new_ReadMeAnalyzer c = Inr (report c, new_ReadMeAnalyzer)"
  by (simp add: analyze_fresh report_eq)

lemma report_sections_new: "sections (report c) = sectionOutcomes c sectionCriteria_init"
  by (simp add: report_eq report_sections section_names_distinct)

lemma report_extras_new: "extras (report c) = extraOutcomes c extraCriteria_init"
  by (simp add: report_eq report_extras extra_names_distinct)

lemma lengthCheck_fst: "fst (lengthCheck n) = (if n < 10 then 0 else if n \<le> 200 then 10 else 5)"
  by (simp add: lengthCheck_def)

lemma lengthCheck_snd:
  "snd (lengthCheck n) =
     (if n < 10 then Some ''README is too short. Add more details.''
      else if n \<le> 200 then None
      else Some ''README is very long. Consider splitting into sections or separate docs.'')"
  by (simp add: lengthCheck_def)

lemma formattingCheck_fst:
  "fst (formattingCheck h k) = (if h < 3 then 0 else if k < 1 then 0 else 10)"
  by (simp add: formattingCheck_def)

lemma formattingCheck_snd:
  "snd (formattingCheck h k) =
     (if h < 3 then Some ''Add more headings to organize your README.''
      else if k < 1 then Some ''Add code blocks for examples or usage instructions.''
      else None)"
  by (simp add: formattingCheck_def)

text \<open>
  The statements below are about \<open>report c\<close>. Each begins by saying that the analysis of
  the document by a fresh analyzer returns, and returns that report.
\<close>

text \<open>
  Claim C1. For every document the total score of the report is the sum of the scores of
  its 8 section outcomes, of the length outcome, of the formatting outcome and of its 18
  extra outcomes; the maximum score is the same for every document, the section weights
  (65 in all) plus the extra weights plus 10 for each of the two metrics, which is 121.
\<close>
theorem C1_score_is_sum_of_outcomes:
  "analyzeContent new_ReadMeAnalyzer c = Inr (report c, new_ReadMeAnalyzer)
   \<and> (totalScore (report c) =
     sum_list (map (score \<circ> snd) (sections (report c)))
     + len_score (length' (report c))
     + fmt_score (formatting (report c))
     + sum_list (map (score \<circ> snd) (extras (report c)))
   \<and> map fst (sections (report c)) = map sc_name sectionCriteria_init
   \<and> length (sections (report c)) = 8
   \<and> map fst (extras (report c)) = map ec_name extraCriteria_init
   \<and> length (extras (report c)) = 18
   \<and> sum_list (map sc_score sectionCriteria_init) = 65
   \<and> maxScore (report c) =
       sum_list (map sc_score sectionCriteria_init)
       + sum_list (map ec_score extraCriteria_init) + 10 + 10
   \<and> maxScore (report c) = 121)"
  (is "_ \<and> ?main")
proof (rule conjI)
  show "analyzeContent new_ReadMeAnalyzer c = Inr (report c, new_ReadMeAnalyzer)"
    by (rule fresh_analyzer_returns)
  show ?main
  proof -
    have t: "totalScore (report c) =
       sum_list (map (score \<circ> snd) (sections (report c)))
       + len_score (length' (report c))
       + fmt_score (formatting (report c))
       + sum_list (map (score \<circ> snd) (extras (report c)))"
      unfolding report_sections_new report_extras_new sectionOutcomes_scores extraOutcomes_scores
      by (simp add: report_eq report_totalScore report_length report_formatting)
    have n1: "map fst (sections (report c)) = map sc_name sectionCriteria_init"
      by (simp add: report_sections_new sectionOutcomes_names)
    have n2: "map fst (extras (report c)) = map ec_name extraCriteria_init"
      by (simp add: report_extras_new extraOutcomes_names)
    have l1: "length (sections (report c)) = 8"
      using arg_cong[OF n1, of length] by (simp add: section_names)
    have l2: "length (extras (report c)) = 18"
      using arg_cong[OF n2, of length] by (simp add: extra_names)
    have m: "maxScore (report c) =
         sum_list (map sc_score sectionCriteria_init)
         + sum_list (map ec_score extraCriteria_init) + 10 + 10"
      by (simp add: report_eq report_maxScore)
    show ?thesis using t n1 n2 l1 l2 m by (simp add: section_scores extra_scores)
  qed
qed

theorem C1_score_is_sum_of_outcomes_witness:
  "totalScore (report []) =
     sum_list (map (score \<circ> snd) (sections (report [])))
     + len_score (length' (report []))
     + fmt_score (formatting (report []))
     + sum_list (map (score \<circ> snd) (extras (report [])))
   \<and> maxScore (report []) = 121"
  using C1_score_is_sum_of_outcomes [of "[]"] by simp

lemma sum_if_bounds:
  "list_all (\<lambda>x. (0::int) \<le> w x) xs \<Longrightarrow>
   0 \<le> sum_list (map (\<lambda>x. if P x then w x else 0) xs)
   \<and> sum_list (map (\<lambda>x. if P x then w x else 0) xs) \<le> sum_list (map w xs)"
  by (induction xs) auto

lemma section_scores_nonneg: "list_all (\<lambda>crit. 0 \<le> sc_score crit) sectionCriteria_init"
  by (simp add: sectionCriteria_init_def)

lemma extra_scores_nonneg: "list_all (\<lambda>crit. 0 \<le> ec_score crit) extraCriteria_init"
  by (simp add: extraCriteria_init_def)

text \<open>
  Claim C2. For every document the total score lies between 0 and the maximum score.
\<close>
theorem C2_score_bounded:
  "analyzeContent new_ReadMeAnalyzer c = Inr (report c, new_ReadMeAnalyzer)
   \<and> (0 \<le> totalScore (report c) \<and> totalScore (report c) \<le> maxScore (report c))"
  (is "_ \<and> ?main")
proof (rule conjI)
  show "analyzeContent new_ReadMeAnalyzer c = Inr (report c, new_ReadMeAnalyzer)"
    by (rule fresh_analyzer_returns)
  show ?main
  proof -
    note s = sum_if_bounds [OF section_scores_nonneg, of "sectionPresent c"]
    note e = sum_if_bounds [OF extra_scores_nonneg, of "\<lambda>crit. tryCheck crit c"]
    have l: "0 \<le> fst (lengthCheck (length (split 10 c))) \<and> fst (lengthCheck (length (split 10 c))) \<le> 10"
      by (simp add: lengthCheck_fst)
    have f: "0 \<le> fst (formattingCheck (headingCount c) (codeBlockCount c))
             \<and> fst (formattingCheck (headingCount c) (codeBlockCount c)) \<le> 10"
      by (simp add: formattingCheck_fst)
    show ?thesis
      using s e l f by (simp add: report_eq report_totalScore report_maxScore)
  qed
qed

theorem C2_score_bounded_witness:
  "0 \<le> totalScore (report (str ''hello''))
   \<and> totalScore (report (str ''hello'')) \<le> maxScore (report (str ''hello''))"
  using C2_score_bounded [of "str ''hello''"] by simp

lemma empty_sectionPresent:
  "map (sectionPresent []) sectionCriteria_init =
     [False, False, False, False, False, False, False, False]"
  by (simp add: sectionCriteria_init_def sectionPresent_def engine_defs)

lemma empty_tryCheck:
  "map (\<lambda>crit. tryCheck crit []) extraCriteria_init =
     [False, False, False, False, False, False, False, False, False, False,
      True, True, True, False, False, False, False, False]"
  by (simp add: extraCriteria_init_def engine_defs check_defs)

lemma empty_headingCount: "headingCount [] = 0"
  by (simp add: headingCount_def engine_defs)

lemma empty_fenceCount: "fenceCount [] = 0"
  by (simp add: fenceCount_def engine_defs)

lemma empty_sections:
  \<open>sections (report []) =
     [(''Title'', \<lparr>present = False, score = 0,
         suggestion = Some ''Add a title at the top using "# Project Name".''\<rparr>),
      (''Description'', \<lparr>present = False, score = 0,
         suggestion = Some ''Add a description section.''\<rparr>),
      (''Installation'', \<lparr>present = False, score = 0,
         suggestion = Some ''Add an Installation section.''\<rparr>),
      (''Usage'', \<lparr>present = False, score = 0, suggestion = Some ''Add a Usage section.''\<rparr>),
      (''Example'', \<lparr>present = False, score = 0,
         suggestion = Some ''Add an Example section.''\<rparr>),
      (''Contributing'', \<lparr>present = False, score = 0,
         suggestion = Some ''Add a Contributing section.''\<rparr>),
      (''License'', \<lparr>present = False, score = 0,
         suggestion = Some ''Add a License section.''\<rparr>),
      (''Badges'', \<lparr>present = False, score = 0,
         suggestion = Some ''Add badges (e.g., build, coverage, npm version).''\<rparr>)]\<close>
  using empty_sectionPresent
  by (simp add: report_sections_new sectionOutcomes_def sectionCriteria_init_def outcome_def)

lemma empty_extras:
  "extras (report []) =
     [(''Proper Title Format'', \<lparr>present = False, score = 0,
         suggestion = Some ''Use a clear, properly capitalized project title.''\<rparr>),
      (''Description Length'', \<lparr>present = False, score = 0,
         suggestion = Some ''Provide a more detailed project description.''\<rparr>),
      (''Table of Contents'', \<lparr>present = False, score = 0,
         suggestion = Some ''Add a Table of Contents section.''\<rparr>),
      (''Multiple Badges'', \<lparr>present = False, score = 0,
         suggestion = Some ''Add more badges (e.g., build, coverage, npm version).''\<rparr>),
      (''Images/Screenshots'', \<lparr>present = False, score = 0,
         suggestion = Some ''Add images or screenshots to illustrate your project.''\<rparr>),
      (''Links'', \<lparr>present = False, score = 0,
         suggestion = Some ''Add relevant links (e.g., documentation, homepage, issues).''\<rparr>),
      (''Lists'', \<lparr>present = False, score = 0,
         suggestion = Some ''Use lists to organize information.''\<rparr>),
      (''Tables'', \<lparr>present = False, score = 0,
         suggestion = Some ''Add tables for structured data.''\<rparr>),
      (''Inline Code'', \<lparr>present = False, score = 0,
         suggestion = Some ''Use inline code for commands or filenames.''\<rparr>),
      (''Blockquotes'', \<lparr>present = False, score = 0,
         suggestion = Some ''Use blockquotes for tips or notes.''\<rparr>),
      (''Consistent Heading Levels'', \<lparr>present = True, score = 2, suggestion = None\<rparr>),
      (''No Placeholder Text'', \<lparr>present = True, score = 2, suggestion = None\<rparr>),
      (''No Broken Markdown'', \<lparr>present = True, score = 2, suggestion = None\<rparr>),
      (''Installation Section Has Code'', \<lparr>present = False, score = 0,
         suggestion = Some ''Add code blocks to the Installation section.''\<rparr>),
      (''Usage Section Has Code'', \<lparr>present = False, score = 0,
         suggestion = Some ''Add code blocks to the Usage section.''\<rparr>),
      (''Example Section Has Code'', \<lparr>present = False, score = 0,
         suggestion = Some ''Add code blocks to the Example section.''\<rparr>),
      (''Contributing Section Has Guidelines'', \<lparr>present = False, score = 0,
         suggestion = Some ''Add contribution guidelines to the Contributing section.''\<rparr>),
      (''License Section Has License Name'', \<lparr>present = False, score = 0,
         suggestion = Some ''Specify the license type in the License section.''\<rparr>)]"
  using empty_tryCheck
  by (simp add: report_extras_new extraOutcomes_def extraCriteria_init_def outcome_def)

lemma empty_totalScore: "totalScore (report []) = 6"
  using empty_sectionPresent empty_tryCheck
  by (simp add: report_eq report_totalScore lengthCheck_fst formattingCheck_fst
      empty_headingCount sectionCriteria_init_def extraCriteria_init_def)

lemma empty_maxScore: "maxScore (report []) = 121"
  by (simp add: report_eq report_maxScore section_scores extra_scores)

lemma empty_length:
  "length' (report []) =
     \<lparr>lines = 1, len_score = 0,
      len_suggestion = Some ''README is too short. Add more details.''\<rparr>"
  by (simp add: report_eq report_length lengthCheck_def)

lemma empty_formatting:
  "formatting (report []) =
     \<lparr>headings = 0, codeBlocks = 0, fmt_score = 0,
      fmt_suggestion = Some ''Add more headings to organize your README.''\<rparr>"
  by (simp add: report_eq report_formatting formattingCheck_def empty_headingCount
      codeBlockCount_def empty_fenceCount)

lemma empty_suggestions:
  \<open>suggestions (report []) =
     [''Add a title at the top using "# Project Name".'',
      ''Add a description section.'',
      ''Add an Installation section.'',
      ''Add a Usage section.'',
      ''Add an Example section.'',
      ''Add a Contributing section.'',
      ''Add a License section.'',
      ''Add badges (e.g., build, coverage, npm version).'',
      ''README is too short. Add more details.'',
      ''Add more headings to organize your README.'',
      ''Use a clear, properly capitalized project title.'',
      ''Provide a more detailed project description.'',
      ''Add a Table of Contents section.'',
      ''Add more badges (e.g., build, coverage, npm version).'',
      ''Add images or screenshots to illustrate your project.'',
      ''Add relevant links (e.g., documentation, homepage, issues).'',
      ''Use lists to organize information.'',
      ''Add tables for structured data.'',
      ''Use inline code for commands or filenames.'',
      ''Use blockquotes for tips or notes.'',
      ''Add code blocks to the Installation section.'',
      ''Add code blocks to the Usage section.'',
      ''Add code blocks to the Example section.'',
      ''Add contribution guidelines to the Contributing section.'',
      ''Specify the license type in the License section.'']\<close>
  using empty_sectionPresent empty_tryCheck
  by (simp add: report_eq report_suggestions lengthCheck_snd formattingCheck_snd
      empty_headingCount sectionCriteria_init_def extraCriteria_init_def)

text \<open>
  Claim C3 as stated (on the empty document no rule is satisfied and the total score is
  0) fails: three extra rules hold of a document without headings, placeholders and
  markup, and the total score is 6.
\<close>
theorem C3_empty_document_counterexample:
  "totalScore (report []) = 6
   \<and> totalScore (report []) \<noteq> 0
   \<and> map_of (extras (report [])) ''Consistent Heading Levels''
       = Some \<lparr>present = True, score = 2, suggestion = None\<rparr>
   \<and> map_of (extras (report [])) ''No Placeholder Text''
       = Some \<lparr>present = True, score = 2, suggestion = None\<rparr>
   \<and> map_of (extras (report [])) ''No Broken Markdown''
       = Some \<lparr>present = True, score = 2, suggestion = None\<rparr>"
  by (simp add: empty_totalScore empty_extras)

text \<open>
  Claim C3, amended. On the empty document the report is complete: no section rule and
  no metric is satisfied, and of the extra rules exactly "Consistent Heading Levels",
  "No Placeholder Text" and "No Broken Markdown" are satisfied, so that the total score
  is 6 of 121, with 25 suggestions.
\<close>
theorem C3_empty_document_report:
  \<open>analyzeContent new_ReadMeAnalyzer [] = Inr (report [], new_ReadMeAnalyzer)
   \<and> (report [] =
     \<lparr>totalScore = 6, maxScore = 121,
      sections =
        [(''Title'', \<lparr>present = False, score = 0,
            suggestion = Some ''Add a title at the top using "# Project Name".''\<rparr>),
         (''Description'', \<lparr>present = False, score = 0,
            suggestion = Some ''Add a description section.''\<rparr>),
         (''Installation'', \<lparr>present = False, score = 0,
            suggestion = Some ''Add an Installation section.''\<rparr>),
         (''Usage'', \<lparr>present = False, score = 0, suggestion = Some ''Add a Usage section.''\<rparr>),
         (''Example'', \<lparr>present = False, score = 0,
            suggestion = Some ''Add an Example section.''\<rparr>),
         (''Contributing'', \<lparr>present = False, score = 0,
            suggestion = Some ''Add a Contributing section.''\<rparr>),
         (''License'', \<lparr>present = False, score = 0,
            suggestion = Some ''Add a License section.''\<rparr>),
         (''Badges'', \<lparr>present = False, score = 0,
            suggestion = Some ''Add badges (e.g., build, coverage, npm version).''\<rparr>)],
      length' = \<lparr>lines = 1, len_score = 0,
                  len_suggestion = Some ''README is too short. Add more details.''\<rparr>,
      formatting = \<lparr>headings = 0, codeBlocks = 0, fmt_score = 0,
                     fmt_suggestion = Some ''Add more headings to organize your README.''\<rparr>,
      extras =
        [(''Proper Title Format'', \<lparr>present = False, score = 0,
            suggestion = Some ''Use a clear, properly capitalized project title.''\<rparr>),
         (''Description Length'', \<lparr>present = False, score = 0,
            suggestion = Some ''Provide a more detailed project description.''\<rparr>),
         (''Table of Contents'', \<lparr>present = False, score = 0,
            suggestion = Some ''Add a Table of Contents section.''\<rparr>),
         (''Multiple Badges'', \<lparr>present = False, score = 0,
            suggestion = Some ''Add more badges (e.g., build, coverage, npm version).''\<rparr>),
         (''Images/Screenshots'', \<lparr>present = False, score = 0,
            suggestion = Some ''Add images or screenshots to illustrate your project.''\<rparr>),
         (''Links'', \<lparr>present = False, score = 0,
            suggestion = Some ''Add relevant links (e.g., documentation, homepage, issues).''\<rparr>),
         (''Lists'', \<lparr>present = False, score = 0,
            suggestion = Some ''Use lists to organize information.''\<rparr>),
         (''Tables'', \<lparr>present = False, score = 0,
            suggestion = Some ''Add tables for structured data.''\<rparr>),
         (''Inline Code'', \<lparr>present = False, score = 0,
            suggestion = Some ''Use inline code for commands or filenames.''\<rparr>),
         (''Blockquotes'', \<lparr>present = False, score = 0,
            suggestion = Some ''Use blockquotes for tips or notes.''\<rparr>),
         (''Consistent Heading Levels'', \<lparr>present = True, score = 2, suggestion = None\<rparr>),
         (''No Placeholder Text'', \<lparr>present = True, score = 2, suggestion = None\<rparr>),
         (''No Broken Markdown'', \<lparr>present = True, score = 2, suggestion = None\<rparr>),
         (''Installation Section Has Code'', \<lparr>present = False, score = 0,
            suggestion = Some ''Add code blocks to the Installation section.''\<rparr>),
         (''Usage Section Has Code'', \<lparr>present = False, score = 0,
            suggestion = Some ''Add code blocks to the Usage section.''\<rparr>),
         (''Example Section Has Code'', \<lparr>present = False, score = 0,
            suggestion = Some ''Add code blocks to the Example section.''\<rparr>),
         (''Contributing Section Has Guidelines'', \<lparr>present = False, score = 0,
            suggestion = Some ''Add contribution guidelines to the Contributing section.''\<rparr>),
         (''License Section Has License Name'', \<lparr>present = False, score = 0,
            suggestion = Some ''Specify the license type in the License section.''\<rparr>)],
      suggestions =
        [''Add a title at the top using "# Project Name".'',
         ''Add a description section.'',
         ''Add an Installation section.'',
         ''Add a Usage section.'',
         ''Add an Example section.'',
         ''Add a Contributing section.'',
         ''Add a License section.'',
         ''Add badges (e.g., build, coverage, npm version).'',
         ''README is too short. Add more details.'',
         ''Add more headings to organize your README.'',
         ''Use a clear, properly capitalized project title.'',
         ''Provide a more detailed project description.'',
         ''Add a Table of Contents section.'',
         ''Add more badges (e.g., build, coverage, npm version).'',
         ''Add images or screenshots to illustrate your project.'',
         ''Add relevant links (e.g., documentation, homepage, issues).'',
         ''Use lists to organize information.'',
         ''Add tables for structured data.'',
         ''Use inline code for commands or filenames.'',
         ''Use blockquotes for tips or notes.'',
         ''Add code blocks to the Installation section.'',
         ''Add code blocks to the Usage section.'',
         ''Add code blocks to the Example section.'',
         ''Add contribution guidelines to the Contributing section.'',
         ''Specify the license type in the License section.'']\<rparr>)\<close>
  (is "_ \<and> ?main")
proof (rule conjI)
  show "analyzeContent new_ReadMeAnalyzer [] = Inr (report [], new_ReadMeAnalyzer)"
    by (rule fresh_analyzer_returns)
  show ?main
  proof -
    have "report [] =
       \<lparr>totalScore = totalScore (report []), maxScore = maxScore (report []),
        sections = sections (report []), length' = length' (report []),
        formatting = formatting (report []), extras = extras (report []),
        suggestions = suggestions (report [])\<rparr>"
      by simp
    then show ?thesis
      by (simp only: empty_totalScore empty_maxScore empty_sections empty_length empty_formatting
          empty_extras empty_suggestions)
  qed
qed

subsection \<open>lines\<close>

lemma split_length: "length (split sep s) = Suc (count_list s sep)"
  by (induction s) (auto split: list.splits)




text \<open>
  Claim C10. The line count of the length outcome is at least 1 for every document; the
  empty document counts as 1 line, scores 0 and gets the "too short" remediation.
\<close>
theorem C10_at_least_one_line:
  "analyzeContent new_ReadMeAnalyzer c = Inr (report c, new_ReadMeAnalyzer)
   \<and> (1 \<le> lines (length' (report c))
   \<and> lines (length' (report c)) = length (split 10 c)
   \<and> length' (report []) =
       \<lparr>lines = 1, len_score = 0,
        len_suggestion = Some ''README is too short. Add more details.''\<rparr>
   \<and> ''README is too short. Add more details.'' \<in> set (suggestions (report [])))"
  (is "_ \<and> ?main")
proof (rule conjI)
  show "analyzeContent new_ReadMeAnalyzer c = Inr (report c, new_ReadMeAnalyzer)"
    by (rule fresh_analyzer_returns)
  show ?main
    by (simp add: report_eq report_length split_length lengthCheck_def report_suggestions)
qed

theorem C10_at_least_one_line_witness:
  "1 \<le> lines (length' (report (str ''hello''))) \<and> lines (length' (report (str ''hello''))) = 1"
  using C10_at_least_one_line [of "str ''hello''"] by (simp add: str_def)

subsection \<open>formatting\<close>

lemma half_below_one: "((of_nat n :: rat) / 2 < 1) = (n div 2 < 1)"
proof -
  have "((of_nat n :: rat) / 2 < 1) = ((of_nat n :: rat) < of_nat 2)" by simp
  also have "\<dots> = (n < 2)" by (simp only: of_nat_less_iff)
  also have "\<dots> = (n div 2 < 1)" by presburger
  finally show ?thesis .
qed

lemma fence_one: "fenceCount (str ''```'') = 1"
  by (simp add: fenceCount_def engine_defs)

text \<open>
  Claim C6 as stated (the code-block count is the number of fences divided by two and
  rounded down) fails: a document that is a single fence has a code-block count of one
  half, not 0.
\<close>
theorem C6_code_block_count_counterexample:
  "fenceCount (str ''```'') = 1
   \<and> codeBlocks (formatting (report (str ''```''))) = 1 / 2
   \<and> codeBlocks (formatting (report (str ''```''))) \<noteq> of_nat (fenceCount (str ''```'') div 2)"
  by (simp add: report_eq report_formatting codeBlockCount_def fence_one)

text \<open>
  Claim C6, amended. The code-block count of the formatting outcome is the number of
  fences divided by two, not rounded, so an odd number of fences gives a count ending in
  one half. The score is 0 with the remediation "Add more headings to organize your
  README." when there are fewer than 3 headings, otherwise 0 with "Add code blocks for
  examples or usage instructions." when the code-block count is below 1, otherwise 10
  with no remediation; below 1 means the same for the count and for its rounding down.
  The fences are the runs of three backquotes met when reading from left to right.
\<close>
theorem C6_formatting_metric:
  "analyzeContent new_ReadMeAnalyzer c = Inr (report c, new_ReadMeAnalyzer)
   \<and> (headings (formatting (report c)) = headingCount c
   \<and> codeBlocks (formatting (report c)) = of_nat (fenceCount c) / 2
   \<and> fmt_score (formatting (report c)) =
       (if headings (formatting (report c)) < 3 then 0
        else if codeBlocks (formatting (report c)) < 1 then 0 else 10)
   \<and> fmt_suggestion (formatting (report c)) =
       (if headings (formatting (report c)) < 3
        then Some ''Add more headings to organize your README.''
        else if codeBlocks (formatting (report c)) < 1
        then Some ''Add code blocks for examples or usage instructions.''
        else None)
   \<and> (codeBlocks (formatting (report c)) < 1) = (fenceCount c div 2 < 1)
   \<and> fenceCount c = countFences c)"
  (is "_ \<and> ?main")
proof (rule conjI)
  show "analyzeContent new_ReadMeAnalyzer c = Inr (report c, new_ReadMeAnalyzer)"
    by (rule fresh_analyzer_returns)
  show ?main
  proof -
    have cb: "codeBlocks (formatting (report c)) = of_nat (fenceCount c) / 2"
      by (simp add: report_eq report_formatting codeBlockCount_def)
    have floor_same: "(codeBlocks (formatting (report c)) < 1) = (fenceCount c div 2 < 1)"
      unfolding cb by (rule half_below_one)
    have "headings (formatting (report c)) = headingCount c
     \<and> fmt_score (formatting (report c)) =
         (if headings (formatting (report c)) < 3 then 0
          else if codeBlocks (formatting (report c)) < 1 then 0 else 10)
     \<and> fmt_suggestion (formatting (report c)) =
         (if headings (formatting (report c)) < 3
          then Some ''Add more headings to organize your README.''
          else if codeBlocks (formatting (report c)) < 1
          then Some ''Add code blocks for examples or usage instructions.''
          else None)"
      by (simp add: report_eq report_formatting formattingCheck_fst formattingCheck_snd)
    then show ?thesis using cb floor_same fenceCount_countFences [of c] by blast
  qed
qed

lemma threeFences_counts: "headingCount threeFences = 3 \<and> fenceCount threeFences = 3"
  by (simp add: headingCount_def fenceCount_def threeFences_def engine_defs)

theorem C6_formatting_metric_witness:
  "formatting (report threeFences) =
     \<lparr>headings = 3, codeBlocks = 3 / 2, fmt_score = 10, fmt_suggestion = None\<rparr>
   \<and> formatting (report (str ''```'')) =
     \<lparr>headings = 0, codeBlocks = 1 / 2, fmt_score = 0,
      fmt_suggestion = Some ''Add more headings to organize your README.''\<rparr>"
proof -
  have a: "formatting (report threeFences) =
      \<lparr>headings = headings (formatting (report threeFences)),
       codeBlocks = codeBlocks (formatting (report threeFences)),
       fmt_score = fmt_score (formatting (report threeFences)),
       fmt_suggestion = fmt_suggestion (formatting (report threeFences))\<rparr>"
    by simp
  have b: "formatting (report (str ''```'')) =
      \<lparr>headings = headings (formatting (report (str ''```''))),
       codeBlocks = codeBlocks (formatting (report (str ''```''))),
       fmt_score = fmt_score (formatting (report (str ''```''))),
       fmt_suggestion = fmt_suggestion (formatting (report (str ''```'')))\<rparr>"
    by simp
  have h0: "headingCount (str ''```'') = 0"
    by (simp add: headingCount_def engine_defs)
  show ?thesis
    using C6_formatting_metric [of threeFences] C6_formatting_metric [of "str ''```''"]
    by (subst a, subst b) (simp add: threeFences_counts fence_one h0)
qed

subsection \<open>suggestions\<close>

lemma metricRemediation_push: "metricRemediation x = pushIfTruthy x []"
  by (cases x) simp_all

lemma section_remediations:
  "list_all (\<lambda>crit. sc_suggestion crit \<noteq> []) crits \<Longrightarrow>
   concat (map ruleRemediation (sectionOutcomes c crits)) =
     map sc_suggestion (filter (\<lambda>crit. \<not> sectionPresent c crit) crits)"
  by (induction crits) (simp_all add: sectionOutcomes_def outcome_def)

lemma extra_remediations:
  "concat (map ruleRemediation (extraOutcomes c crits)) =
     map ec_suggestion (filter (\<lambda>crit. \<not> tryCheck crit c \<and> ec_suggestion crit \<noteq> []) crits)"
  by (induction crits) (simp_all add: extraOutcomes_def outcome_def)

text \<open>
  Claim C7. The suggestion list holds exactly the non-empty remediation texts of the
  unsatisfied section rules in catalog order, then that of the length metric, then that
  of the formatting metric, then those of the unsatisfied extra rules in catalog order,
  and nothing for a satisfied rule; the outcomes stand in catalog order and carry the
  remediation texts of the catalogs.
\<close>
theorem C7_suggestions_in_order:
  "analyzeContent new_ReadMeAnalyzer c = Inr (report c, new_ReadMeAnalyzer)
   \<and> (suggestions (report c) = expectedSuggestions (report c)
   \<and> sections (report c) = sectionOutcomes c sectionCriteria_init
   \<and> extras (report c) = extraOutcomes c extraCriteria_init)"
  (is "_ \<and> ?main")
proof (rule conjI)
  show "analyzeContent new_ReadMeAnalyzer c = Inr (report c, new_ReadMeAnalyzer)"
    by (rule fresh_analyzer_returns)
  show ?main
  proof -
    have "suggestions (report c) = expectedSuggestions (report c)"
      unfolding expectedSuggestions_def report_sections_new report_extras_new
        section_remediations [OF section_suggestions_nonempty] extra_remediations
        metricRemediation_push
      by (simp add: report_eq report_suggestions report_length report_formatting)
    then show ?thesis by (simp add: report_sections_new report_extras_new)
  qed
qed

theorem C7_suggestions_in_order_witness:
  "suggestions (report []) = expectedSuggestions (report [])
   \<and> length (suggestions (report [])) = 25"
proof -
  have "length (suggestions (report [])) = 25"
    by (simp add: empty_suggestions)
  then show ?thesis
    using C7_suggestions_in_order [of "[]"] by simp
qed

subsection \<open>determinism\<close>

text \<open>
  Claim C8. A second analysis of the same document text by the same analyzer gives the
  same report: the first call returns a report and the analyzer unchanged, whatever
  document it analyzed, and the call on the analyzer it leaves returns that report again.
\<close>
theorem C8_analyze_is_deterministic:
  "(\<exists>r this1. analyzeContent new_ReadMeAnalyzer c = Inr (r, this1)
       \<and> analyzeContent this1 c = Inr (r, this1))
   \<and> (\<exists>r' this1. analyzeContent new_ReadMeAnalyzer c' = Inr (r', this1)
       \<and> analyzeContent this1 c = analyzeContent new_ReadMeAnalyzer c)
   \<and> analyzeContent new_ReadMeAnalyzer c = Inr (report c, new_ReadMeAnalyzer)"
  using fresh_analyzer_returns [of c] fresh_analyzer_returns [of c'] by simp

theorem C8_analyze_is_deterministic_witness:
  "analyzeContent new_ReadMeAnalyzer (str ''hello'')
     = Inr (report (str ''hello''), new_ReadMeAnalyzer)
   \<and> analyzeContent new_ReadMeAnalyzer [] = Inr (report [], new_ReadMeAnalyzer)
   \<and> totalScore (report []) = 6"
  using C8_analyze_is_deterministic [of "str ''hello''" "[]"]
    C8_analyze_is_deterministic [of "[]" "[]"]
  by (simp add: empty_totalScore)

text \<open>With the \<open>g\<close> flag on the title pattern the second call gives another report.\<close>

lemma global_flag_breaks_determinism:
  "map (present \<circ> snd)
     (sections (fst (projr (analyzeContent globalTitleAnalyzer (str ''# A''))))) = [True]
   \<and> map (present \<circ> snd)
       (sections (fst (projr (analyzeContent
          (snd (projr (analyzeContent globalTitleAnalyzer (str ''# A'')))) (str ''# A'')))))
     = [False]"
  by (simp add: analyzeContent_def afterSections_def initialLocals_def sectionStep_def
      sectionUpdate_def callTest_def globalTitleAnalyzer_def outcome_def addMetric_def
      split_beta engine_defs)

lemma heading_rule_lookup:
  "map_of (extraOutcomes c extraCriteria_init) ''Consistent Heading Levels'' =
     Some (outcome (consistentHeadingLevels c) 2 ''Use consistent heading levels for structure.'')"
  by (simp add: extraOutcomes_def extraCriteria_init_def tryCheck_def returns_def)

text \<open>
  Claim C9. The rule "Consistent Heading Levels" is satisfied exactly when the document
  has at most one heading or every heading level is the first heading's level or that
  level plus one; headings of levels 1, 2, 2, 4 leave it unsatisfied. The level of a
  heading is the number of \<open>#\<close> its marker starts with, which is at least 1.
\<close>
theorem C9_consistent_heading_levels:
  "analyzeContent new_ReadMeAnalyzer c = Inr (report c, new_ReadMeAnalyzer)
   \<and> (consistentHeadingLevels c =
     (length (headingLevels c) \<le> 1
      \<or> (\<forall>h \<in> set (headingLevels c).
            h = hd (headingLevels c) \<or> h = hd (headingLevels c) + 1))
   \<and> map_of (extras (report c)) ''Consistent Heading Levels'' =
       Some (outcome (consistentHeadingLevels c) 2
               ''Use consistent heading levels for structure.'')
   \<and> (headingLevels c = [1, 2, 2, 4] \<longrightarrow> \<not> consistentHeadingLevels c)
   \<and> headingLevels c = map hashCount (headingMarkers c)
   \<and> list_all (\<lambda>h. 1 \<le> h) (headingLevels c))"
  (is "_ \<and> ?main")
proof (rule conjI)
  show "analyzeContent new_ReadMeAnalyzer c = Inr (report c, new_ReadMeAnalyzer)"
    by (rule fresh_analyzer_returns)
  show ?main
  proof -
    have a: "consistentHeadingLevels c =
       (length (headingLevels c) \<le> 1
        \<or> (\<forall>h \<in> set (headingLevels c).
              h = hd (headingLevels c) \<or> h = hd (headingLevels c) + 1))"
    proof (cases "1 < length (headingLevels c)")
      case True
      then have "headingLevels c \<noteq> []" by auto
      then have "headingLevels c ! 0 = hd (headingLevels c)" by (simp add: hd_conv_nth)
      with True show ?thesis
        by (simp add: consistentHeadingLevels_def Let_def list_all_iff)
    next
      case False
      then show ?thesis by (simp add: consistentHeadingLevels_def Let_def)
    qed
    have b: "headingLevels c = [1, 2, 2, 4] \<longrightarrow> \<not> consistentHeadingLevels c"
      by (simp add: consistentHeadingLevels_def Let_def)
    have d: "map_of (extras (report c)) ''Consistent Heading Levels'' =
         Some (outcome (consistentHeadingLevels c) 2
                 ''Use consistent heading levels for structure.'')"
      by (simp add: report_extras_new heading_rule_lookup)
    show ?thesis using a b d headingLevels_hashCount [of c] by blast
  qed
qed

lemma headings1224_levels: "headingLevels headings1224 = [1, 2, 2, 4]"
  by (simp add: headings1224_def headingLevels_def engine_defs)

theorem C9_consistent_heading_levels_witness:
  "headingLevels headings1224 = [1, 2, 2, 4]
   \<and> \<not> consistentHeadingLevels headings1224
   \<and> map_of (extras (report headings1224)) ''Consistent Heading Levels'' =
       Some \<lparr>present = False, score = 0,
             suggestion = Some ''Use consistent heading levels for structure.''\<rparr>"
  using C9_consistent_heading_levels [of headings1224] headings1224_levels
  by (simp add: outcome_def)

subsection \<open>A check that throws\<close>









end
